theory Spec2Isabelle
  imports Main "HOL-Library.Multiset"
begin

section \<open>JavaScript values used by the chat session engine\<close>

text \<open>
  A JavaScript string is a sequence of UTF-16 code units.  String literals of the
  source are written with \<open>lit\<close>.
\<close>

type_synonym js_string = "nat list"

definition lit :: "string \<Rightarrow> js_string" where
  "lit s = map of_char s"

text \<open>
  \<open>String.prototype.trim\<close> removes leading and trailing code units that are
  WhiteSpace or LineTerminator in ECMAScript: TAB, LF, VT, FF, CR, SPACE, NBSP,
  U+1680, U+2000..U+200A, U+2028, U+2029, U+202F, U+205F, U+3000 and U+FEFF.
\<close>

definition js_isWhiteSpace :: "nat \<Rightarrow> bool" where
  "js_isWhiteSpace c =
     (c = 0x9 \<or> c = 0xA \<or> c = 0xB \<or> c = 0xC \<or> c = 0xD \<or> c = 0x20 \<or> c = 0xA0
      \<or> c = 0x1680 \<or> (0x2000 \<le> c \<and> c \<le> 0x200A) \<or> c = 0x2028 \<or> c = 0x2029
      \<or> c = 0x202F \<or> c = 0x205F \<or> c = 0x3000 \<or> c = 0xFEFF)"

definition js_trim :: "js_string \<Rightarrow> js_string" where
  "js_trim s = rev (dropWhile js_isWhiteSpace (rev (dropWhile js_isWhiteSpace s)))"

text \<open>\<open>s.substring(0, n)\<close> for a literal \<open>n\<close>.\<close>

definition js_substring0 :: "js_string \<Rightarrow> nat \<Rightarrow> js_string" where
  "js_substring0 s n = take n s"

text \<open>Decimal rendering of a non-negative integer inside a template string.\<close>

fun js_digits :: "nat \<Rightarrow> js_string" where
  "js_digits n = (if n < 10 then [48 + n] else js_digits (n div 10) @ [48 + n mod 10])"

text \<open>
  The values whose truthiness the code tests.  Arrays and objects carry the
  host-level elements they hold.
\<close>

datatype 'a js_value =
    JsUndefined
  | JsNull
  | JsBoolean bool
  | JsNumber int
  | JsString js_string
  | JsArray "'a list"
  | JsObject 'a

fun js_truthy :: "'a js_value \<Rightarrow> bool" where
  "js_truthy JsUndefined = False"
| "js_truthy JsNull = False"
| "js_truthy (JsBoolean b) = b"
| "js_truthy (JsNumber n) = (n \<noteq> 0)"
| "js_truthy (JsString s) = (s \<noteq> [])"
| "js_truthy (JsArray xs) = True"
| "js_truthy (JsObject x) = True"

subsection \<open>Maps and objects with insertion order\<close>

text \<open>
  A JavaScript \<open>Map\<close> (and an object with string keys) keeps its entries in
  insertion order: it is an association list.  \<open>set\<close> on a present key replaces
  the value in place, on an absent key it appends; \<open>delete\<close> removes the entry.
\<close>

fun Map_has :: "('k \<times> 'v) list \<Rightarrow> 'k \<Rightarrow> bool" where
  "Map_has [] k = False"
| "Map_has ((a, b) # m) k = (if a = k then True else Map_has m k)"

fun Map_get :: "('k \<times> 'v) list \<Rightarrow> 'k \<Rightarrow> 'v option" where
  "Map_get [] k = None"
| "Map_get ((a, b) # m) k = (if a = k then Some b else Map_get m k)"

fun Map_set :: "('k \<times> 'v) list \<Rightarrow> 'k \<Rightarrow> 'v \<Rightarrow> ('k \<times> 'v) list" where
  "Map_set [] k v = [(k, v)]"
| "Map_set ((a, b) # m) k v = (if a = k then (k, v) # m else (a, b) # Map_set m k v)"

fun Map_delete :: "('k \<times> 'v) list \<Rightarrow> 'k \<Rightarrow> ('k \<times> 'v) list" where
  "Map_delete [] k = []"
| "Map_delete ((a, b) # m) k = (if a = k then m else (a, b) # Map_delete m k)"

definition Map_values :: "('k \<times> 'v) list \<Rightarrow> 'v list" where
  "Map_values m = map snd m"

text \<open>\<open>Object.values(o)\<close> of an object whose keys are not array indices.\<close>

definition Object_values :: "('k \<times> 'v) list \<Rightarrow> 'v list" where
  "Object_values m = map snd m"

text \<open>The number of entries registered under one key.\<close>

definition Map_count :: "('k \<times> 'v) list \<Rightarrow> 'k \<Rightarrow> nat" where
  "Map_count m k = length (filter (\<lambda>e. fst e = k) m)"

section \<open>The session model\<close>

datatype location = Panel | Terminal | Notebook | Editor

record chat_agent =
  agent_id :: js_string
  agent_name :: js_string

record agent_command =
  command_name :: js_string

text \<open>A parsed request: its text and its parts, in order.\<close>

datatype request_part =
    ChatRequestTextPart js_string
  | ChatRequestAgentPart chat_agent
  | ChatRequestAgentSubcommandPart agent_command
  | ChatRequestSlashCommandPart js_string
  | ChatRequestVariablePart js_string

record parsed_request =
  pr_text :: js_string
  pr_parts :: "request_part list"

text \<open>
  The agent's result (\<open>IAideChatAgentResult\<close>): optional \<open>errorDetails\<close> with a
  message and the optional qualifiers \<open>responseIsIncomplete\<close> and
  \<open>responseIsFiltered\<close>.
\<close>

record error_details =
  ed_message :: js_string
  ed_responseIsIncomplete :: "bool option"
  ed_responseIsFiltered :: "bool option"

record agent_result =
  ar_errorDetails :: "error_details option"

text \<open>
  A progress fragment: markdown content, or any other kind, held with the text
  \<open>JSON.stringify\<close> renders for it.
\<close>

datatype chat_progress =
    MarkdownContent js_string
  | OtherProgress js_string

record chat_response =
  resp_parts :: "chat_progress list"
  resp_result :: "agent_result option"
  resp_isComplete :: bool
  resp_isCanceled :: bool

record chat_request =
  req_id :: nat
  req_message :: parsed_request
  req_attempt :: nat
  req_agent :: "chat_agent option"
  req_command :: "agent_command option"
  req_response :: "chat_response option"

record chat_model =
  cm_sessionId :: js_string
  cm_initialLocation :: location
  cm_creationDate :: int
  cm_requests :: "chat_request list"

text \<open>
  Modelled from the spec: the class \<open>ChatModel\<close> (the SessionModel) is not under
  \<open>src/\<close>.  \<open>addRequest\<close> appends a new request with an empty
  response, \<open>acceptResponseProgress\<close> appends a fragment to the response of a
  request of this session (nothing otherwise), \<open>setResponse\<close> attaches the
  terminal result, \<open>completeResponse\<close> sets the completion flag and
  \<open>cancelRequest\<close> marks the response cancelled and complete.
\<close>

definition empty_response :: chat_response where
  "empty_response =
     \<lparr>resp_parts = [], resp_result = None, resp_isComplete = False, resp_isCanceled = False\<rparr>"

definition ChatModel_addRequest ::
  "chat_model \<Rightarrow> nat \<Rightarrow> parsed_request \<Rightarrow> nat \<Rightarrow> chat_agent option \<Rightarrow> agent_command option
     \<Rightarrow> chat_model" where
  "ChatModel_addRequest m rid parsed attempt agent command =
     m\<lparr>cm_requests := cm_requests m @
        [\<lparr>req_id = rid, req_message = parsed, req_attempt = attempt, req_agent = agent,
          req_command = command, req_response = Some empty_response\<rparr>]\<rparr>"

definition update_response :: "nat \<Rightarrow> (chat_response \<Rightarrow> chat_response) \<Rightarrow> chat_model \<Rightarrow> chat_model" where
  "update_response rid f m =
     m\<lparr>cm_requests :=
        map (\<lambda>r. if req_id r = rid then r\<lparr>req_response := map_option f (req_response r)\<rparr> else r)
          (cm_requests m)\<rparr>"

definition ChatModel_acceptResponseProgress :: "chat_model \<Rightarrow> nat \<Rightarrow> chat_progress \<Rightarrow> chat_model" where
  "ChatModel_acceptResponseProgress m rid progress =
     update_response rid (\<lambda>r. r\<lparr>resp_parts := resp_parts r @ [progress]\<rparr>) m"

definition ChatModel_setResponse :: "chat_model \<Rightarrow> nat \<Rightarrow> agent_result \<Rightarrow> chat_model" where
  "ChatModel_setResponse m rid rawResult =
     update_response rid (\<lambda>r. r\<lparr>resp_result := Some rawResult\<rparr>) m"

definition ChatModel_completeResponse :: "chat_model \<Rightarrow> nat \<Rightarrow> chat_model" where
  "ChatModel_completeResponse m rid =
     update_response rid (\<lambda>r. r\<lparr>resp_isComplete := True\<rparr>) m"

definition ChatModel_cancelRequest :: "chat_model \<Rightarrow> nat \<Rightarrow> chat_model" where
  "ChatModel_cancelRequest m rid =
     update_response rid (\<lambda>r. r\<lparr>resp_isCanceled := True, resp_isComplete := True\<rparr>) m"

text \<open>The persisted form of a session (\<open>ISerializableChatData\<close>).\<close>

record serialized_request =
  sr_message :: js_string
  sr_response :: "js_string list"

record serialized_chat =
  sc_sessionId :: js_string
  sc_creationDate :: "int option"
  sc_requests :: "serialized_request list"
  sc_isImported :: bool
  sc_initialLocation :: "location option"

section \<open>The request dispatcher (ChatService)\<close>

subsection \<open>State\<close>

datatype js_error = JsError js_string | JsTypeError js_string | JsSyntaxError js_string

fun error_message :: "js_error \<Rightarrow> js_string" where
  "error_message (JsError m) = m"
| "error_message (JsTypeError m) = m"
| "error_message (JsSyntaxError m) = m"


datatype log_entry = LogTrace js_string | LogError js_string

datatype result_classification =
  ResultSuccess | ResultError | ResultErrorWithOutput | ResultCancelled | ResultFiltered

datatype request_type = RequestString | RequestFollowup | RequestSlashCommand

text \<open>
  One \<open>aideChatProviderInvoked\<close> telemetry event.  Its two timing fields are left
  out: no property stated here reads a clock.
\<close>

record telemetry_event =
  te_result :: result_classification
  te_requestType :: request_type
  te_agent :: js_string
  te_slashCommand :: "js_string option"
  te_chatSessionId :: js_string
  te_location :: location

record send_options =
  opt_location :: "location option"
  opt_attempt :: "nat option"
  opt_noCommandDetection :: "bool option"
  opt_agentId :: "js_string option"
  opt_slashCommand :: "js_string option"
  opt_parserContext :: "chat_agent option"

text \<open>A \<open>CancellationTokenSource\<close>: whether its token is cancelled, whether it is disposed.\<close>

record token_source =
  ts_cancelled :: bool
  ts_disposed :: bool

text \<open>
  One invocation of \<open>_sendRequestAsync\<close>: the variables its closure
  \<open>sendRequestInternal\<close> captures, and where that asynchronous function stands.
  \<open>AwaitActivation\<close>: suspended at \<open>activateByEvent\<close>, before the request exists.
  \<open>AwaitAgent\<close>: the request exists, variables are being resolved or the agent runs.
  \<open>AwaitCommand\<close>: a contributed slash command runs.
  \<open>Settled\<close>: the function has returned (its \<open>finally\<close> disposed the listener) and
  the promise is settled; the callback registered with \<open>.finally\<close> has not run yet.
  \<open>CleanedUp\<close>: that callback has run.
\<close>

datatype op_phase = AwaitActivation | AwaitAgent | AwaitCommand | Settled | CleanedUp

record send_operation =
  op_sessionId :: js_string
  op_parsedRequest :: parsed_request
  op_attempt :: nat
  op_enableCommandDetection :: bool
  op_defaultAgent :: "chat_agent option"
  op_location :: location
  op_source :: nat
  op_request :: "nat option"
  op_gotProgress :: bool
  op_responseCreatedComplete :: bool
  op_phase :: op_phase

text \<open>A call of \<open>sendRequest\<close> suspended at \<open>await model.waitForInitialization()\<close>.\<close>

record suspended_send =
  ss_sessionId :: js_string
  ss_request :: js_string
  ss_options :: send_options
  ss_initialLocation :: location
  ss_resumed :: bool

datatype saved_session = Live chat_model | Persisted serialized_chat

text \<open>
  The service: the fields of the class (\<open>_sessionModels\<close>, \<open>_pendingRequests\<close>,
  \<open>_persistedSessions\<close>, \<open>_sessionFollowupCancelTokens\<close>), and the run-time state
  its methods act on: the token sources created so far (a source is known by its
  index), the invocations of \<open>_sendRequestAsync\<close>, the suspended calls of
  \<open>sendRequest\<close>, the request id counter, the log, the telemetry and the value
  stored under the key \<open>aideChat.sessions\<close>.
\<close>

record chat_service =
  sessionModels :: "(js_string \<times> chat_model) list"
  pendingRequests :: "(js_string \<times> nat) list"
  persistedSessions :: "(js_string \<times> serialized_chat) list"
  sessionFollowupCancelTokens :: "(js_string \<times> nat) list"
  tokenSources :: "token_source list"
  operations :: "send_operation list"
  suspendedSends :: "suspended_send list"
  nextRequestId :: nat
  logs :: "log_entry list"
  telemetry :: "telemetry_event list"
  storage :: "js_string option"

text \<open>
  The collaborators the service calls, taken as parameters: the agent service, the
  request parser with its two leader constants, the slash command service,
  \<open>toErrorMessage\<close> and \<open>JSON.stringify\<close>.
\<close>

record env =
  env_getDefaultAgent :: "location \<Rightarrow> chat_agent option"
  env_getAgent :: "js_string \<Rightarrow> chat_agent option"
  env_parser :: "js_string \<Rightarrow> js_string \<Rightarrow> location \<Rightarrow> chat_agent option \<Rightarrow> parsed_request"
  env_chatAgentLeader :: js_string
  env_chatSubcommandLeader :: js_string
  env_hasCommand :: "js_string \<Rightarrow> bool"
  env_toErrorMessage :: "js_error \<Rightarrow> js_string"
  env_JSON_stringify :: "saved_session list \<Rightarrow> js_string"

definition maxPersistedSessions :: nat where
  "maxPersistedSessions = 25"

subsection \<open>Logging\<close>

definition trace :: "js_string \<Rightarrow> js_string \<Rightarrow> chat_service \<Rightarrow> chat_service" where
  "trace method message s =
     s\<lparr>logs := logs s @
        [LogTrace (if message \<noteq> [] then lit ''ChatService#'' @ method @ lit '': '' @ message
                   else lit ''ChatService#'' @ method)]\<rparr>"

definition log_error :: "js_string \<Rightarrow> js_string \<Rightarrow> chat_service \<Rightarrow> chat_service" where
  "log_error method message s =
     s\<lparr>logs := logs s @ [LogError (lit ''ChatService#'' @ method @ lit '' '' @ message)]\<rparr>"

subsection \<open>Token sources and the disposable maps\<close>

definition update_op :: "nat \<Rightarrow> (send_operation \<Rightarrow> send_operation) \<Rightarrow> chat_service \<Rightarrow> chat_service" where
  "update_op k f s = s\<lparr>operations := (operations s)[k := f (operations s ! k)]\<rparr>"

definition with_model :: "js_string \<Rightarrow> (chat_model \<Rightarrow> chat_model) \<Rightarrow> chat_service \<Rightarrow> chat_service" where
  "with_model sid f s =
     s\<lparr>sessionModels := map (\<lambda>e. if fst e = sid then (fst e, f (snd e)) else e) (sessionModels s)\<rparr>"

definition source_dispose :: "nat \<Rightarrow> chat_service \<Rightarrow> chat_service" where
  "source_dispose i s =
     s\<lparr>tokenSources := (tokenSources s)[i := (tokenSources s ! i)\<lparr>ts_disposed := True\<rparr>]\<rparr>"

definition token_isCancellationRequested :: "chat_service \<Rightarrow> nat \<Rightarrow> bool" where
  "token_isCancellationRequested s i = (i < length (tokenSources s) \<and> ts_cancelled (tokenSources s ! i))"

fun find_agentPart :: "request_part list \<Rightarrow> chat_agent option" where
  "find_agentPart [] = None"
| "find_agentPart (ChatRequestAgentPart a # ps) = Some a"
| "find_agentPart (p # ps) = find_agentPart ps"

fun find_agentSubcommandPart :: "request_part list \<Rightarrow> agent_command option" where
  "find_agentSubcommandPart [] = None"
| "find_agentSubcommandPart (ChatRequestAgentSubcommandPart c # ps) = Some c"
| "find_agentSubcommandPart (p # ps) = find_agentSubcommandPart ps"

fun find_slashCommandPart :: "request_part list \<Rightarrow> js_string option" where
  "find_slashCommandPart [] = None"
| "find_slashCommandPart (ChatRequestSlashCommandPart c # ps) = Some c"
| "find_slashCommandPart (p # ps) = find_slashCommandPart ps"

text \<open>The telemetry event an invocation publishes with a given result.\<close>

definition telemetry_of :: "send_operation \<Rightarrow> result_classification \<Rightarrow> telemetry_event" where
  "telemetry_of opr res =
     (let parts = pr_parts (op_parsedRequest opr) in
      \<lparr>te_result = res,
       te_requestType = (if find_slashCommandPart parts \<noteq> None then RequestSlashCommand else RequestString),
       te_agent = (case find_agentPart parts of Some a \<Rightarrow> agent_id a | None \<Rightarrow> []),
       te_slashCommand = (case find_agentSubcommandPart parts of
                            Some c \<Rightarrow> Some (command_name c)
                          | None \<Rightarrow> find_slashCommandPart parts),
       te_chatSessionId = op_sessionId opr,
       te_location = op_location opr\<rparr>)"

text \<open>
  The listener \<open>sendRequestInternal\<close> registers on its token: a trace, the
  \<open>cancelled\<close> telemetry event, and \<open>model.cancelRequest(request)\<close>.
\<close>

definition onCancellationRequested :: "nat \<Rightarrow> chat_service \<Rightarrow> chat_service" where
  "onCancellationRequested k s =
     (let opr = operations s ! k;
          s1 = trace (lit ''sendRequest'')
                 (lit ''Request for session '' @ op_sessionId opr @ lit '' was cancelled'') s;
          s2 = s1\<lparr>telemetry := telemetry s1 @ [telemetry_of opr ResultCancelled]\<rparr>
      in case op_request opr of
           None \<Rightarrow> s2
         | Some rid \<Rightarrow> with_model (op_sessionId opr) (\<lambda>m. ChatModel_cancelRequest m rid) s2)"

definition listening :: "op_phase \<Rightarrow> bool" where
  "listening ph = (ph = AwaitActivation \<or> ph = AwaitAgent \<or> ph = AwaitCommand)"

text \<open>
  Modelled from the spec: \<open>CancellationTokenSource\<close> is not under \<open>src/\<close>.  \<open>cancel()\<close> flips the token once; the listeners still registered on a
  token that is not disposed run at that moment.
\<close>

definition source_cancel :: "nat \<Rightarrow> chat_service \<Rightarrow> chat_service" where
  "source_cancel i s =
     (if i < length (tokenSources s) \<and> \<not> ts_cancelled (tokenSources s ! i) then
        let fire = \<not> ts_disposed (tokenSources s ! i);
            s1 = s\<lparr>tokenSources := (tokenSources s)[i := (tokenSources s ! i)\<lparr>ts_cancelled := True\<rparr>]\<rparr>
        in if fire then
             fold onCancellationRequested
               (filter (\<lambda>k. op_source (operations s ! k) = i \<and> listening (op_phase (operations s ! k)))
                  [0..<length (operations s)]) s1
           else s1
      else s)"

text \<open>
  Modelled from the spec: \<open>DisposableMap\<close> is not under \<open>src/\<close>.
  \<open>set\<close> disposes the value it overwrites, \<open>deleteAndDispose\<close> disposes the value
  it removes; on an absent key \<open>deleteAndDispose\<close> does nothing.
\<close>

definition pendingRequests_set :: "js_string \<Rightarrow> nat \<Rightarrow> chat_service \<Rightarrow> chat_service" where
  "pendingRequests_set k v s =
     (let s1 = (case Map_get (pendingRequests s) k of None \<Rightarrow> s | Some old \<Rightarrow> source_dispose old s)
      in s1\<lparr>pendingRequests := Map_set (pendingRequests s1) k v\<rparr>)"

definition pendingRequests_deleteAndDispose :: "js_string \<Rightarrow> chat_service \<Rightarrow> chat_service" where
  "pendingRequests_deleteAndDispose k s =
     (let s1 = (case Map_get (pendingRequests s) k of None \<Rightarrow> s | Some old \<Rightarrow> source_dispose old s)
      in s1\<lparr>pendingRequests := Map_delete (pendingRequests s1) k\<rparr>)"

definition sessionFollowupCancelTokens_set :: "js_string \<Rightarrow> nat \<Rightarrow> chat_service \<Rightarrow> chat_service" where
  "sessionFollowupCancelTokens_set k v s =
     (let s1 = (case Map_get (sessionFollowupCancelTokens s) k of
                  None \<Rightarrow> s | Some old \<Rightarrow> source_dispose old s)
      in s1\<lparr>sessionFollowupCancelTokens := Map_set (sessionFollowupCancelTokens s1) k v\<rparr>)"

definition new_source :: "chat_service \<Rightarrow> nat \<times> chat_service" where
  "new_source s =
     (length (tokenSources s),
      s\<lparr>tokenSources := tokenSources s @ [\<lparr>ts_cancelled = False, ts_disposed = False\<rparr>]\<rparr>)"

definition refreshFollowupsCancellationToken :: "js_string \<Rightarrow> chat_service \<Rightarrow> nat \<times> chat_service" where
  "refreshFollowupsCancellationToken sessionId s =
     (let s1 = (case Map_get (sessionFollowupCancelTokens s) sessionId of
                  None \<Rightarrow> s | Some old \<Rightarrow> source_cancel old s);
          (newTokenSource, s2) = new_source s1
      in (newTokenSource, sessionFollowupCancelTokens_set sessionId newTokenSource s2))"

subsection \<open>Sending a request\<close>

definition parseChatRequest ::
  "env \<Rightarrow> js_string \<Rightarrow> js_string \<Rightarrow> location \<Rightarrow> send_options \<Rightarrow> js_error + parsed_request" where
  "parseChatRequest env sessionId request location options =
     (case opt_agentId options of
        None \<Rightarrow> Inr (env_parser env sessionId request location (opt_parserContext options))
      | Some agentId \<Rightarrow>
          if agentId = [] then
            Inr (env_parser env sessionId request location (opt_parserContext options))
          else
            (case env_getAgent env agentId of
               None \<Rightarrow> Inl (JsError (lit ''Unknown agent: '' @ agentId))
             | Some agent \<Rightarrow>
                 let commandPart =
                       (case opt_slashCommand options of
                          None \<Rightarrow> []
                        | Some c \<Rightarrow> if c = [] then [] else lit '' '' @ env_chatSubcommandLeader env @ c)
                 in Inr (env_parser env sessionId
                           (env_chatAgentLeader env @ agent_name agent @ commandPart @ lit '' '' @ request)
                           location (Some agent))))"

definition completeResponseCreated :: "nat \<Rightarrow> chat_service \<Rightarrow> chat_service" where
  "completeResponseCreated k s =
     (let opr = operations s ! k in
      if \<not> op_responseCreatedComplete opr \<and> op_request opr \<noteq> None
      then update_op k (\<lambda>x. x\<lparr>op_responseCreatedComplete := True\<rparr>) s
      else s)"

text \<open>\<open>request = model.addRequest(...)\<close> inside \<open>sendRequestInternal\<close>.\<close>

definition op_addRequest :: "nat \<Rightarrow> chat_agent option \<Rightarrow> agent_command option \<Rightarrow> chat_service \<Rightarrow> chat_service" where
  "op_addRequest k agent command s =
     (let opr = operations s ! k;
          rid = nextRequestId s;
          s1 = with_model (op_sessionId opr)
                 (\<lambda>m. ChatModel_addRequest m rid (op_parsedRequest opr) (op_attempt opr) agent command) s
      in update_op k (\<lambda>x. x\<lparr>op_request := Some rid\<rparr>) (s1\<lparr>nextRequestId := rid + 1\<rparr>))"

text \<open>
  The classification of an agent result: the conditional expression of
  \<open>sendRequestInternal\<close>.
\<close>

definition result_classification_of :: "agent_result \<Rightarrow> bool \<Rightarrow> result_classification" where
  "result_classification_of rawResult gotProgress =
     (if (case ar_errorDetails rawResult of
            None \<Rightarrow> False
          | Some d \<Rightarrow> ed_responseIsFiltered d = Some True) then ResultFiltered
      else if ar_errorDetails rawResult \<noteq> None \<and> gotProgress then ResultErrorWithOutput
      else if ar_errorDetails rawResult \<noteq> None then ResultError
      else ResultSuccess)"

text \<open>
  The \<open>catch\<close> block of \<open>sendRequestInternal\<close>, followed by its \<open>finally\<close>
  (the listener is disposed: the invocation stops listening).
\<close>

definition sendRequestInternal_catch :: "env \<Rightarrow> nat \<Rightarrow> js_error \<Rightarrow> chat_service \<Rightarrow> chat_service" where
  "sendRequestInternal_catch env k err s =
     (let opr = operations s ! k;
          s1 = s\<lparr>telemetry := telemetry s @ [telemetry_of opr ResultError]\<rparr>;
          s2 = s1\<lparr>logs := logs s1 @
                 [LogError (lit ''Error while handling chat request: '' @ env_toErrorMessage env err)]\<rparr>;
          s3 = (case op_request opr of
                  None \<Rightarrow> s2
                | Some rid \<Rightarrow>
                    let rawResult = \<lparr>ar_errorDetails = Some
                          \<lparr>ed_message = error_message err, ed_responseIsIncomplete = None,
                           ed_responseIsFiltered = None\<rparr>\<rparr>;
                        s2a = with_model (op_sessionId opr) (\<lambda>m. ChatModel_setResponse m rid rawResult) s2;
                        s2b = completeResponseCreated k s2a
                    in with_model (op_sessionId opr) (\<lambda>m. ChatModel_completeResponse m rid) s2b)
      in update_op k (\<lambda>x. x\<lparr>op_phase := Settled\<rparr>) s3)"

text \<open>
  What \<open>sendRequestInternal\<close> does once the agent invocation (or the slash command)
  has returned \<open>rawResult\<close>, followed by its \<open>finally\<close>.  The follow-ups fetched
  afterwards are not modelled.
\<close>

definition sendRequestInternal_complete :: "nat \<Rightarrow> agent_result option \<Rightarrow> chat_service \<Rightarrow> chat_service" where
  "sendRequestInternal_complete k rawResult0 s =
     (let opr = operations s ! k in
      if token_isCancellationRequested s (op_source opr) then
        update_op k (\<lambda>x. x\<lparr>op_phase := Settled\<rparr>) s
      else
        let s1 = (case rawResult0 of
                    None \<Rightarrow> trace (lit ''sendRequest'')
                              (lit ''Provider returned no response for session '' @ op_sessionId opr) s
                  | Some r \<Rightarrow> s);
            rawResult = (case rawResult0 of
                    None \<Rightarrow> \<lparr>ar_errorDetails = Some
                              \<lparr>ed_message = lit ''Provider returned null response'',
                               ed_responseIsIncomplete = None, ed_responseIsFiltered = None\<rparr>\<rparr>
                  | Some r \<Rightarrow> r);
            res = result_classification_of rawResult (op_gotProgress opr);
            s2 = s1\<lparr>telemetry := telemetry s1 @ [telemetry_of opr res]\<rparr>;
            s3 = (case op_request opr of
                    None \<Rightarrow> s2
                  | Some rid \<Rightarrow> with_model (op_sessionId opr) (\<lambda>m. ChatModel_setResponse m rid rawResult) s2);
            s4 = completeResponseCreated k s3;
            s5 = trace (lit ''sendRequest'')
                   (lit ''Provider returned response for session '' @ op_sessionId opr) s4;
            s6 = (case op_request opr of
                    None \<Rightarrow> s5
                  | Some rid \<Rightarrow> with_model (op_sessionId opr) (\<lambda>m. ChatModel_completeResponse m rid) s5)
        in update_op k (\<lambda>x. x\<lparr>op_phase := Settled\<rparr>) s6)"

text \<open>The progress callback of an invocation.\<close>

definition progressCallback :: "nat \<Rightarrow> chat_progress \<Rightarrow> chat_service \<Rightarrow> chat_service" where
  "progressCallback k progress s =
     (let opr = operations s ! k in
      if token_isCancellationRequested s (op_source opr) then s
      else
        let s1 = update_op k (\<lambda>x. x\<lparr>op_gotProgress := True\<rparr>) s;
            s2 = (case progress of
                    MarkdownContent content \<Rightarrow>
                      trace (lit ''sendRequest'')
                        (lit ''Provider returned progress for session '' @ op_sessionId opr @ lit '', ''
                           @ js_digits (length content) @ lit '' chars'') s1
                  | OtherProgress json \<Rightarrow>
                      trace (lit ''sendRequest'') (lit ''Provider returned progress: '' @ json) s1);
            s3 = (case op_request opr of
                    None \<Rightarrow> s2
                  | Some rid \<Rightarrow>
                      with_model (op_sessionId opr) (\<lambda>m. ChatModel_acceptResponseProgress m rid progress) s2)
        in completeResponseCreated k s3)"

text \<open>
  \<open>sendRequestInternal()\<close> as far as it runs when \<open>_sendRequestAsync\<close> calls it: up
  to its first \<open>await\<close>, or through its \<open>catch\<close> when no agent and no command can
  handle the request.
\<close>

definition sendRequestInternal_begin :: "env \<Rightarrow> nat \<Rightarrow> chat_service \<Rightarrow> chat_service" where
  "sendRequestInternal_begin env k s =
     (let opr = operations s ! k;
          parts = pr_parts (op_parsedRequest opr);
          agentPart = find_agentPart parts;
          commandPart = find_slashCommandPart parts
      in if agentPart \<noteq> None \<or> (op_defaultAgent opr \<noteq> None \<and> commandPart = None) then
           update_op k (\<lambda>x. x\<lparr>op_phase := AwaitActivation\<rparr>) s
         else if (case commandPart of None \<Rightarrow> False | Some c \<Rightarrow> env_hasCommand env c) then
           update_op k (\<lambda>x. x\<lparr>op_phase := AwaitCommand\<rparr>)
             (completeResponseCreated k (op_addRequest k None None s))
         else sendRequestInternal_catch env k (JsError (lit ''Cannot handle request'')) s)"

text \<open>
  The continuation of \<open>sendRequestInternal\<close> after \<open>activateByEvent\<close>: the request
  is created, then variables are resolved and the agent is invoked.
\<close>

definition sendRequestInternal_activated :: "nat \<Rightarrow> chat_service \<Rightarrow> chat_service" where
  "sendRequestInternal_activated k s =
     (let opr = operations s ! k;
          parts = pr_parts (op_parsedRequest opr);
          agent = (case find_agentPart parts of Some a \<Rightarrow> Some a | None \<Rightarrow> op_defaultAgent opr)
      in update_op k (\<lambda>x. x\<lparr>op_phase := AwaitAgent\<rparr>)
           (completeResponseCreated k (op_addRequest k agent (find_agentSubcommandPart parts) s)))"

text \<open>The callback \<open>_sendRequestAsync\<close> registers with \<open>rawResponsePromise.finally\<close>.\<close>

definition rawResponsePromise_finally :: "nat \<Rightarrow> chat_service \<Rightarrow> chat_service" where
  "rawResponsePromise_finally k s =
     pendingRequests_deleteAndDispose (op_sessionId (operations s ! k))
       (update_op k (\<lambda>x. x\<lparr>op_phase := CleanedUp\<rparr>) s)"

definition sendRequestAsync ::
  "env \<Rightarrow> js_string \<Rightarrow> js_string \<Rightarrow> parsed_request \<Rightarrow> nat \<Rightarrow> bool \<Rightarrow> chat_agent option \<Rightarrow> location
     \<Rightarrow> chat_service \<Rightarrow> nat \<times> chat_service" where
  "sendRequestAsync env modelSessionId sessionId parsedRequest attempt enableCommandDetection
       defaultAgent location s =
     (let (followupsCancelToken, s1) = refreshFollowupsCancellationToken sessionId s;
          (source, s2) = new_source s1;
          k = length (operations s2);
          s3 = s2\<lparr>operations := operations s2 @
                 [\<lparr>op_sessionId = modelSessionId, op_parsedRequest = parsedRequest,
                   op_attempt = attempt, op_enableCommandDetection = enableCommandDetection,
                   op_defaultAgent = defaultAgent, op_location = location, op_source = source,
                   op_request = None, op_gotProgress = False, op_responseCreatedComplete = False,
                   op_phase = AwaitActivation\<rparr>]\<rparr>;
          s4 = sendRequestInternal_begin env k s3
      in (k, pendingRequests_set modelSessionId source s4))"

text \<open>What \<open>sendRequest\<close> has done when it first suspends or returns.\<close>

record send_data =
  sd_operation :: nat
  sd_agent :: "chat_agent option"
  sd_slashCommand :: "agent_command option"

datatype send_start =
    AwaitsInitialization
  | Returned "send_data option"
  | Threw js_error

definition sendRequest ::
  "chat_service \<Rightarrow> js_string \<Rightarrow> js_string \<Rightarrow> send_options \<Rightarrow> send_start \<times> chat_service" where
  "sendRequest s sessionId request options =
     (let s1 = trace (lit ''sendRequest'')
                 (lit ''sessionId: '' @ sessionId @ lit '', message: '' @ js_substring0 request 20
                    @ (if length request > 20 then lit ''[...]'' else []) @ lit ''}'') s
      in if js_trim request = [] then
           (Returned None, trace (lit ''sendRequest'') (lit ''Rejected empty message'') s1)
         else
           (case Map_get (sessionModels s1) sessionId of
              None \<Rightarrow> (Threw (JsError (lit ''Unknown session: '' @ sessionId)), s1)
            | Some model \<Rightarrow>
                (AwaitsInitialization,
                 s1\<lparr>suspendedSends := suspendedSends s1 @
                      [\<lparr>ss_sessionId = sessionId, ss_request = request, ss_options = options,
                        ss_initialLocation = cm_initialLocation model, ss_resumed = False\<rparr>]\<rparr>)))"

text \<open>
  \<open>sendRequest\<close> from the point where \<open>model.waitForInitialization()\<close> has resolved.
\<close>

definition sendRequest_resume ::
  "env \<Rightarrow> chat_service \<Rightarrow> js_string \<Rightarrow> js_string \<Rightarrow> send_options \<Rightarrow> location
     \<Rightarrow> send_start \<times> chat_service" where
  "sendRequest_resume env s sessionId request options initialLocation =
     (if Map_has (pendingRequests s) sessionId then
        (Returned None,
         trace (lit ''sendRequest'')
           (lit ''Session '' @ sessionId @ lit '' already has a pending request'') s)
      else
        let location = (case opt_location options of Some l \<Rightarrow> l | None \<Rightarrow> initialLocation);
            attempt = (case opt_attempt options of Some a \<Rightarrow> a | None \<Rightarrow> 0);
            defaultAgent = env_getDefaultAgent env location
        in case parseChatRequest env sessionId request location options of
             Inl err \<Rightarrow> (Threw err, s)
           | Inr parsedRequest \<Rightarrow>
               let agent = (case find_agentPart (pr_parts parsedRequest) of
                              Some a \<Rightarrow> Some a | None \<Rightarrow> defaultAgent);
                   agentSlashCommandPart = find_agentSubcommandPart (pr_parts parsedRequest);
                   (k, s1) = sendRequestAsync env sessionId sessionId parsedRequest attempt
                               (opt_noCommandDetection options \<noteq> Some True) defaultAgent location s
               in (Returned (Some \<lparr>sd_operation = k, sd_agent = agent,
                                    sd_slashCommand = agentSlashCommandPart\<rparr>), s1))"

definition cancelCurrentRequestForSession :: "js_string \<Rightarrow> chat_service \<Rightarrow> chat_service" where
  "cancelCurrentRequestForSession sessionId s =
     (let s1 = trace (lit ''cancelCurrentRequestForSession'') (lit ''sessionId: '' @ sessionId) s;
          s2 = (case Map_get (pendingRequests s1) sessionId of
                  None \<Rightarrow> s1
                | Some source \<Rightarrow> source_cancel source s1)
      in pendingRequests_deleteAndDispose sessionId s2)"

text \<open>
  \<open>startSession\<close>: the new model is registered under its session id.  The id and
  the creation date, which the model's constructor draws, are arguments.
\<close>

definition startSession :: "js_string \<Rightarrow> location \<Rightarrow> int \<Rightarrow> chat_service \<Rightarrow> chat_service" where
  "startSession sessionId location creationDate s =
     (let s1 = trace (lit ''startSession'') [] s;
          model = \<lparr>cm_sessionId = sessionId, cm_initialLocation = location,
                   cm_creationDate = creationDate, cm_requests = []\<rparr>;
          s2 = s1\<lparr>sessionModels := Map_set (sessionModels s1) sessionId model\<rparr>
      in trace (lit ''initializeSession'') (lit ''Initialize session '' @ sessionId) s2)"

definition hasSessions :: "chat_service \<Rightarrow> bool" where
  "hasSessions s = js_truthy (JsArray (Object_values (persistedSessions s)))"

subsection \<open>Persistence\<close>

text \<open>
  \<open>Array.prototype.sort\<close> with a comparator is stable (ECMAScript 2019): elements
  that compare equal keep their order.  The stable insertion sort below computes
  that array for a comparator that orders its arguments consistently.
\<close>

fun insert_by :: "('a \<Rightarrow> 'a \<Rightarrow> int) \<Rightarrow> 'a \<Rightarrow> 'a list \<Rightarrow> 'a list" where
  "insert_by cmp x [] = [x]"
| "insert_by cmp x (y # ys) = (if cmp x y \<le> 0 then x # y # ys else y # insert_by cmp x ys)"

definition Array_sort :: "('a \<Rightarrow> 'a \<Rightarrow> int) \<Rightarrow> 'a list \<Rightarrow> 'a list" where
  "Array_sort cmp xs = foldr (insert_by cmp) xs []"

text \<open>\<open>session.creationDate ?? 0\<close>, for a live model and for a persisted snapshot.\<close>

fun creationDate_or_0 :: "saved_session \<Rightarrow> int" where
  "creationDate_or_0 (Live m) = cm_creationDate m"
| "creationDate_or_0 (Persisted c) = (case sc_creationDate c of Some d \<Rightarrow> d | None \<Rightarrow> 0)"

fun saved_sessionId :: "saved_session \<Rightarrow> js_string" where
  "saved_sessionId (Live m) = cm_sessionId m"
| "saved_sessionId (Persisted c) = sc_sessionId c"

fun saved_request_count :: "saved_session \<Rightarrow> nat" where
  "saved_request_count (Live m) = length (cm_requests m)"
| "saved_request_count (Persisted c) = length (sc_requests c)"

text \<open>The array \<open>allSessions\<close> of \<open>saveState\<close> before it is sorted.\<close>

definition saveState_candidates :: "chat_service \<Rightarrow> saved_session list" where
  "saveState_candidates s =
     map Live
       (filter (\<lambda>session. length (cm_requests session) > 0)
          (filter (\<lambda>session. cm_initialLocation session = Panel) (Map_values (sessionModels s))))
     @ map Persisted
       (filter (\<lambda>session. length (sc_requests session) \<noteq> 0)
          (filter (\<lambda>session. \<not> Map_has (sessionModels s) (sc_sessionId session))
             (Object_values (persistedSessions s))))"

text \<open>The array \<open>allSessions\<close> that \<open>saveState\<close> serializes: sorted, then sliced.\<close>

definition saveState_sessions :: "chat_service \<Rightarrow> saved_session list" where
  "saveState_sessions s =
     take maxPersistedSessions
       (Array_sort (\<lambda>a b. creationDate_or_0 b - creationDate_or_0 a) (saveState_candidates s))"

definition saveState :: "env \<Rightarrow> chat_service \<Rightarrow> chat_service" where
  "saveState env s =
     (let allSessions = saveState_sessions s;
          s1 = (if length allSessions \<noteq> 0 then
                  trace (lit ''onWillSaveState'')
                    (lit ''Persisting '' @ js_digits (length allSessions) @ lit '' sessions'') s
                else s);
          serialized = env_JSON_stringify env allSessions;
          s2 = (if length allSessions \<noteq> 0 then
                  trace (lit ''onWillSaveState'')
                    (lit ''Persisting '' @ js_digits (length serialized) @ lit '' chars'') s1
                else s1)
      in s2\<lparr>storage := Some serialized\<rparr>)"

subsection \<open>Runs of the service\<close>

text \<open>
  The service runs on one thread; its asynchronous methods interleave only at their
  \<open>await\<close>s.  An event is one uninterrupted piece of code: a call of a method up to
  its first suspension, or the continuation of a suspended call.
\<close>

datatype event =
    StartSession js_string location int
  | SendRequest js_string js_string send_options
  | InitializationDone nat
  | Activated nat
  | Progress nat chat_progress
  | AgentReturned nat "agent_result option"
  | CommandReturned nat
  | OperationThrew nat js_error
  | PromiseFinally nat
  | CancelCurrentRequest js_string
  | SaveState

definition phase_of :: "chat_service \<Rightarrow> nat \<Rightarrow> op_phase option" where
  "phase_of s k = (if k < length (operations s) then Some (op_phase (operations s ! k)) else None)"

fun step :: "env \<Rightarrow> chat_service \<Rightarrow> event \<Rightarrow> chat_service" where
  "step env s (StartSession sessionId location creationDate) =
     startSession sessionId location creationDate s"
| "step env s (SendRequest sessionId request options) = snd (sendRequest s sessionId request options)"
| "step env s (InitializationDone j) =
     (if j < length (suspendedSends s) \<and> \<not> ss_resumed (suspendedSends s ! j) then
        let c = suspendedSends s ! j;
            s1 = s\<lparr>suspendedSends := (suspendedSends s)[j := c\<lparr>ss_resumed := True\<rparr>]\<rparr>
        in snd (sendRequest_resume env s1 (ss_sessionId c) (ss_request c) (ss_options c)
                  (ss_initialLocation c))
      else s)"
| "step env s (Activated k) =
     (if phase_of s k = Some AwaitActivation then sendRequestInternal_activated k s else s)"
| "step env s (Progress k progress) =
     (if phase_of s k = Some AwaitAgent \<or> phase_of s k = Some AwaitCommand
      then progressCallback k progress s else s)"
| "step env s (AgentReturned k rawResult) =
     (if phase_of s k = Some AwaitAgent then sendRequestInternal_complete k rawResult s else s)"
| "step env s (CommandReturned k) =
     (if phase_of s k = Some AwaitCommand
      then sendRequestInternal_complete k (Some \<lparr>ar_errorDetails = None\<rparr>) s else s)"
| "step env s (OperationThrew k err) =
     (if phase_of s k = Some AwaitActivation \<or> phase_of s k = Some AwaitAgent
         \<or> phase_of s k = Some AwaitCommand
      then sendRequestInternal_catch env k err s else s)"
| "step env s (PromiseFinally k) =
     (if phase_of s k = Some Settled then rawResponsePromise_finally k s else s)"
| "step env s (CancelCurrentRequest sessionId) = cancelCurrentRequestForSession sessionId s"
| "step env s SaveState = saveState env s"

definition run :: "env \<Rightarrow> chat_service \<Rightarrow> event list \<Rightarrow> chat_service" where
  "run env s evs = foldl (step env) s evs"

text \<open>The service as its constructor leaves it when nothing is stored.\<close>

definition initial_service :: chat_service where
  "initial_service =
     \<lparr>sessionModels = [], pendingRequests = [], persistedSessions = [],
      sessionFollowupCancelTokens = [], tokenSources = [], operations = [], suspendedSends = [],
      nextRequestId = 0, logs = [], telemetry = [], storage = None\<rparr>"

text \<open>An invocation is in flight while \<open>sendRequestInternal\<close> has not returned.\<close>

definition in_flight :: "chat_service \<Rightarrow> js_string \<Rightarrow> nat list" where
  "in_flight s sessionId =
     filter (\<lambda>k. op_sessionId (operations s ! k) = sessionId \<and> listening (op_phase (operations s ! k)))
       [0..<length (operations s)]"

subsection \<open>Restoring persisted sessions\<close>

text \<open>
  The data \<open>revive(JSON.parse(sessionData))\<close> yields: JSON values, and the
  \<open>MarkdownString\<close> objects \<open>deserializeChats\<close> puts in place of strings.
\<close>

datatype json =
    JNull
  | JBool bool
  | JNumber int
  | JString js_string
  | JArray "json list"
  | JObject "(js_string \<times> json) list"
  | JMarkdownString js_string

text \<open>
  Reading a property: \<open>null\<close> has none (a TypeError); an object has those of its
  entries; every other value has no property of the names read here
  (\<open>undefined\<close>, written \<open>None\<close>).  The texts of TypeErrors are the engine's.
\<close>

definition get_property :: "json \<Rightarrow> js_string \<Rightarrow> js_error + json option" where
  "get_property v name =
     (case v of
        JNull \<Rightarrow> Inl (JsTypeError (lit ''Cannot read properties of null (reading '' @ [39] @ name
                        @ [39] @ lit '')''))
      | JObject props \<Rightarrow> Inr (Map_get props name)
      | _ \<Rightarrow> Inr None)"














section \<open>The edit pipeline\<close>

subsection \<open>Ranges and documents\<close>

record range =
  startLineNumber :: nat
  startColumn :: nat
  endLineNumber :: nat
  endColumn :: nat

text \<open>\<open>new Range(...)\<close> orders its two positions.\<close>

definition new_Range :: "nat \<Rightarrow> nat \<Rightarrow> nat \<Rightarrow> nat \<Rightarrow> range" where
  "new_Range sl sc el ec =
     (if sl > el \<or> (sl = el \<and> sc > ec)
      then \<lparr>startLineNumber = el, startColumn = ec, endLineNumber = sl, endColumn = sc\<rparr>
      else \<lparr>startLineNumber = sl, startColumn = sc, endLineNumber = el, endColumn = ec\<rparr>)"

text \<open>\<open>Number.MAX_VALUE\<close>, which is an integer: \<open>2^1024 - 2^971\<close>.\<close>

definition Number_MAX_VALUE :: nat where
  "Number_MAX_VALUE = 2 ^ 1024 - 2 ^ 971"

record single_edit =
  edit_range :: range
  edit_text :: js_string

text \<open>
  Modelled from the spec: the document handle (\<open>ITextModel\<close>, reached through the
  editor) is not under \<open>src/\<close>.  A document has its text, a version
  counter that every change increments, the alternate-version counter, which an
  edit sets to the new version and an undo sets back to what it was before the
  edit, and an undo stack.  An element of the stack restores the text and the
  alternate version of the moment it was opened; edits join the open element until
  an undo stop closes it.
\<close>

record undo_element =
  ue_content :: js_string
  ue_alternativeVersionId :: nat

record text_model =
  tm_content :: js_string
  tm_versionId :: nat
  tm_alternativeVersionId :: nat
  tm_undoStack :: "undo_element list"
  tm_elementOpen :: bool
  tm_disposed :: bool

definition pushUndoStop :: "text_model \<Rightarrow> text_model" where
  "pushUndoStop m = m\<lparr>tm_elementOpen := False\<rparr>"

definition canUndo :: "text_model \<Rightarrow> bool" where
  "canUndo m = (tm_undoStack m \<noteq> [])"

definition getAlternativeVersionId :: "text_model \<Rightarrow> nat" where
  "getAlternativeVersionId m = tm_alternativeVersionId m"

definition undo :: "text_model \<Rightarrow> text_model" where
  "undo m =
     (case tm_undoStack m of
        [] \<Rightarrow> m
      | e # rest \<Rightarrow>
          m\<lparr>tm_content := ue_content e, tm_versionId := tm_versionId m + 1,
            tm_alternativeVersionId := ue_alternativeVersionId e, tm_undoStack := rest,
            tm_elementOpen := False\<rparr>)"

text \<open>
  The text buffer, a parameter: from the text and the edits, the new text and the
  ranges of the inverse edits (where the new text stands), which the editor reports
  to the callback of \<open>executeEdits\<close>.
\<close>

type_synonym text_buffer = "js_string \<Rightarrow> single_edit list \<Rightarrow> js_string \<times> range list"

definition executeEdits :: "text_buffer \<Rightarrow> text_model \<Rightarrow> single_edit list \<Rightarrow> range list \<times> text_model" where
  "executeEdits buffer m edits =
     (let (content, undoEdits) = buffer (tm_content m) edits;
          stack = (if tm_elementOpen m \<and> tm_undoStack m \<noteq> [] then tm_undoStack m
                   else \<lparr>ue_content = tm_content m,
                         ue_alternativeVersionId = tm_alternativeVersionId m\<rparr> # tm_undoStack m)
      in (undoEdits,
          m\<lparr>tm_content := content, tm_versionId := tm_versionId m + 1,
            tm_alternativeVersionId := tm_versionId m + 1, tm_undoStack := stack,
            tm_elementOpen := True\<rparr>))"

subsection \<open>The live strategy\<close>

text \<open>
  \<open>ICSChatCodeblockTextModels\<close>: the snapshot taken at the first touch and the
  alternate version of the live document at that moment.  The live document itself
  is passed beside the strategy.
\<close>

record codeblock_text_models =
  textModel0 :: js_string
  textModelNAltVersion :: nat
  textModelNSnapshotAltVersion :: "nat option"

text \<open>The branch of \<open>getTextModels\<close> that meets a document for the first time.\<close>

definition getTextModels_first :: "text_model \<Rightarrow> codeblock_text_models" where
  "getTextModels_first textModelN =
     \<lparr>textModel0 = tm_content textModelN,
      textModelNAltVersion = getAlternativeVersionId textModelN,
      textModelNSnapshotAltVersion = None\<rparr>"

text \<open>
  Modelled from the spec: the decorations collection of the editor is not under
  \<open>src/\<close>; it is the list of the ranges appended and not cleared.  The strategy is
  its models, its edit counter and this collection.
\<close>

record live_strategy =
  ls_models :: codeblock_text_models
  ls_editCount :: nat
  ls_progressiveEditingDecorations :: "range list"

definition LiveStrategy_new :: "codeblock_text_models \<Rightarrow> live_strategy" where
  "LiveStrategy_new models =
     \<lparr>ls_models = models, ls_editCount = 0, ls_progressiveEditingDecorations = []\<rparr>"

definition resetDiff :: "live_strategy \<Rightarrow> live_strategy" where
  "resetDiff st = st\<lparr>ls_progressiveEditingDecorations := []\<rparr>"

text \<open>\<open>newLines.add(line)\<close> for each line in turn: a set keeps the first insertion.\<close>

fun Set_add_all :: "nat list \<Rightarrow> nat list \<Rightarrow> nat list" where
  "Set_add_all acc [] = acc"
| "Set_add_all acc (x # xs) = Set_add_all (if x \<in> set acc then acc else acc @ [x]) xs"

text \<open>
  The callback that adds decorations once per edited line.  \<open>lineRange\<close>, a
  parameter, stands for \<open>LineRange.fromRange(r).forEach\<close>, which is not under
  \<open>src/\<close>: the line numbers it visits, in order.
\<close>

definition report_progress :: "(range \<Rightarrow> nat list) \<Rightarrow> range list \<Rightarrow> range list \<Rightarrow> range list" where
  "report_progress lineRange decorations edits =
     (let newLines = Set_add_all [] (concat (map lineRange edits));
          existingRanges = map lineRange decorations;
          newLines' = filter (\<lambda>line. line \<notin> set (concat existingRanges)) newLines;
          newDecorations = map (\<lambda>line. new_Range line 1 line Number_MAX_VALUE) newLines'
      in decorations @ newDecorations)"

text \<open>\<open>_makeChanges(edits, undefined)\<close>: the synchronous path.\<close>

definition makeChanges ::
  "(range \<Rightarrow> nat list) \<Rightarrow> text_buffer \<Rightarrow> live_strategy \<times> text_model \<Rightarrow> single_edit list
     \<Rightarrow> live_strategy \<times> text_model" where
  "makeChanges lineRange buffer sm edits =
     (let st1 = (fst sm)\<lparr>ls_editCount := ls_editCount (fst sm) + 1\<rparr>;
          m1 = (if ls_editCount st1 = 1 then pushUndoStop (snd sm) else snd sm);
          (undoEdits, m2) = executeEdits buffer m1 edits
      in (st1\<lparr>ls_progressiveEditingDecorations :=
                report_progress lineRange (ls_progressiveEditingDecorations st1) undoEdits\<rparr>,
          m2))"

definition apply_edits :: "live_strategy \<times> text_model \<Rightarrow> live_strategy \<times> text_model" where
  "apply_edits sm =
     (resetDiff (fst sm), if ls_editCount (fst sm) > 0 then pushUndoStop (snd sm) else snd sm)"

text \<open>
  \<open>undoModelUntil\<close>.  With the undo stack above every \<open>undo()\<close> that \<open>canUndo()\<close>
  allows shortens the stack, so the loop ends.
\<close>

function undoModelUntil :: "text_model \<Rightarrow> nat \<Rightarrow> text_model" where
  "undoModelUntil model targetAltVersion =
     (if targetAltVersion < getAlternativeVersionId model \<and> canUndo model
      then undoModelUntil (undo model) targetAltVersion
      else model)"
  by pat_completeness auto
termination
  by (relation "measure (\<lambda>(m, t). length (tm_undoStack m))")
     (auto simp: canUndo_def undo_def split: list.splits)

definition cancel :: "live_strategy \<times> text_model \<Rightarrow> live_strategy \<times> text_model" where
  "cancel sm =
     (let st1 = resetDiff (fst sm);
          modelN = snd sm
      in if tm_disposed modelN then (st1, modelN)
         else
           let targetAltVersion =
                 (case textModelNSnapshotAltVersion (ls_models st1) of
                    Some v \<Rightarrow> v
                  | None \<Rightarrow> textModelNAltVersion (ls_models st1))
           in (st1, undoModelUntil modelN targetAltVersion))"

definition undoChanges :: "live_strategy \<times> text_model \<Rightarrow> nat \<Rightarrow> live_strategy \<times> text_model" where
  "undoChanges sm altVersionId = (fst sm, undoModelUntil (snd sm) altVersionId)"

text \<open>The guard of the loop of \<open>undoModelUntil\<close>.\<close>

definition undo_guard :: "nat \<Rightarrow> text_model \<Rightarrow> bool" where
  "undo_guard targetAltVersion model =
     (targetAltVersion < getAlternativeVersionId model \<and> canUndo model)"

subsection \<open>The edit session coordinator (ChatEditSessionService)\<close>

text \<open>
  A response view model as the coordinator reads it: its id and its session id.
  The calls of \<open>recordEdits\<close> it receives are kept in the coordinator's state below.
\<close>

record response_vm =
  vm_id :: js_string
  vm_sessionId :: js_string

record edit_context =
  codeBlockIndex :: int

record edit_request =
  er_context :: "edit_context list"

text \<open>One call \<open>responseVM.recordEdits(codeBlockIndex, edits)\<close>; no summary is \<open>undefined\<close>.\<close>

record recorded_edits =
  re_response :: js_string
  re_codeBlockIndex :: int
  re_edits :: "js_string option"

text \<open>
  The coordinator: the fields of the class, the documents of the model service, the
  calls of \<open>recordEdits\<close> made so far, the number of cancelable promises created (a
  promise is known by its number) and the log.
\<close>

record edit_service =
  es_activeResponse :: "response_vm option"
  es_editResponseIdInProgress :: js_string
  es_editCodeblockInProgress :: int
  es_pendingRequests :: "(js_string \<times> nat) list"
  es_pendingEdits :: "(js_string \<times> single_edit list list) list"
  es_receivedProgress :: "(js_string \<times> single_edit list list) list"
  es_textModels :: "(js_string \<times> codeblock_text_models) list"
  es_editStrategies :: "(js_string \<times> live_strategy) list"
  es_documents :: "(js_string \<times> text_model) list"
  es_recordedEdits :: "recorded_edits list"
  es_promises :: nat
  es_logs :: "log_entry list"

definition es_trace :: "js_string \<Rightarrow> js_string \<Rightarrow> edit_service \<Rightarrow> edit_service" where
  "es_trace method message s =
     s\<lparr>es_logs := es_logs s @ [LogTrace (lit ''CSChatEditSession#'' @ method @ lit '': '' @ message)]\<rparr>"

definition es_error :: "js_string \<Rightarrow> js_string \<Rightarrow> edit_service \<Rightarrow> edit_service" where
  "es_error method message s =
     s\<lparr>es_logs := es_logs s @ [LogError (lit ''CSChatEditSession#'' @ method @ lit '' '' @ message)]\<rparr>"

text \<open>
  \<open>_sendEditRequestAsync\<close> up to its first suspension: the cancelable promise is
  created, its body runs up to \<open>await makeEdits\<close>, and the promise is registered
  under the session id.
\<close>

definition sendEditRequestAsync :: "response_vm \<Rightarrow> edit_request \<Rightarrow> edit_service \<Rightarrow> nat \<times> edit_service" where
  "sendEditRequestAsync responseVM request s =
     (let rawResponsePromise = es_promises s;
          s1 = s\<lparr>es_promises := es_promises s + 1\<rparr>
      in (rawResponsePromise,
          s1\<lparr>es_pendingRequests :=
               Map_set (es_pendingRequests s1) (vm_sessionId responseVM) rawResponsePromise\<rparr>))"

text \<open>The callback registered with \<open>rawResponsePromise.finally\<close>.\<close>

definition sendEditRequest_finally :: "response_vm \<Rightarrow> edit_service \<Rightarrow> edit_service" where
  "sendEditRequest_finally responseVM s =
     s\<lparr>es_pendingRequests := Map_delete (es_pendingRequests s) (vm_sessionId responseVM)\<rparr>"

text \<open>
  \<open>sendEditRequest\<close>: \<open>None\<close> is \<open>undefined\<close>, \<open>Some p\<close> the object holding the
  promise \<open>p\<close> as \<open>responseCompletePromise\<close>.
\<close>

definition sendEditRequest :: "edit_service \<Rightarrow> response_vm \<Rightarrow> edit_request \<Rightarrow> nat option \<times> edit_service" where
  "sendEditRequest s responseVM request =
     (if length (er_context request) \<noteq> 1 then
        (None,
         es_error (lit ''sendRequest'')
           (lit ''Expected exactly one context, got '' @ js_digits (length (er_context request))) s)
      else
        let idx = codeBlockIndex (hd (er_context request));
            s1 = s\<lparr>es_activeResponse := Some responseVM\<rparr>;
            s2 = s1\<lparr>es_editResponseIdInProgress := vm_id responseVM\<rparr>;
            s3 = s2\<lparr>es_editCodeblockInProgress := idx\<rparr>;
            s4 = s3\<lparr>es_recordedEdits := es_recordedEdits s3 @
                   [\<lparr>re_response = vm_id responseVM, re_codeBlockIndex = idx, re_edits = None\<rparr>]\<rparr>
        in if Map_has (es_pendingRequests s4) (vm_sessionId responseVM) then
             (None,
              es_trace (lit ''sendRequest'')
                (lit ''Session '' @ vm_sessionId responseVM @ lit '' already has a pending request'') s4)
           else
             let (responseCompletePromise, s5) = sendEditRequestAsync responseVM request s4
             in (Some responseCompletePromise, s5))"

text \<open>Runs of the coordinator: calls of \<open>sendEditRequest\<close> and settled promises.\<close>

datatype edit_event =
    SendEditRequest response_vm edit_request
  | EditPromiseFinally response_vm

fun edit_step :: "edit_service \<Rightarrow> edit_event \<Rightarrow> edit_service" where
  "edit_step s (SendEditRequest responseVM request) = snd (sendEditRequest s responseVM request)"
| "edit_step s (EditPromiseFinally responseVM) = sendEditRequest_finally responseVM s"

definition edit_run :: "edit_service \<Rightarrow> edit_event list \<Rightarrow> edit_service" where
  "edit_run s evs = foldl edit_step s evs"

definition initial_edit_service :: edit_service where
  "initial_edit_service =
     \<lparr>es_activeResponse = None, es_editResponseIdInProgress = [], es_editCodeblockInProgress = - 1,
      es_pendingRequests = [], es_pendingEdits = [], es_receivedProgress = [], es_textModels = [],
      es_editStrategies = [], es_documents = [], es_recordedEdits = [], es_promises = 0,
      es_logs = []\<rparr>"

section \<open>Notions used in the statements\<close>

text \<open>The response of a request of a session, as the session table holds it.\<close>

definition response_of :: "chat_service \<Rightarrow> js_string \<Rightarrow> nat \<Rightarrow> chat_response option" where
  "response_of s sessionId rid =
     (case Map_get (sessionModels s) sessionId of
        None \<Rightarrow> None
      | Some m \<Rightarrow>
          (case find (\<lambda>r. req_id r = rid) (cm_requests m) of
             None \<Rightarrow> None
           | Some r \<Rightarrow> req_response r))"

text \<open>The sessions \<open>slice\<close> cuts off: the candidates that are not serialized.\<close>

definition saveState_dropped :: "chat_service \<Rightarrow> saved_session list" where
  "saveState_dropped s =
     drop maxPersistedSessions
       (Array_sort (\<lambda>a b. creationDate_or_0 b - creationDate_or_0 a) (saveState_candidates s))"


text \<open>The lines the decorations of a collection stand on, and the lines a report touches.\<close>

definition decorated_lines :: "range list \<Rightarrow> nat list" where
  "decorated_lines decorations = map startLineNumber decorations"

definition touched_lines :: "(range \<Rightarrow> nat list) \<Rightarrow> range list \<Rightarrow> nat set" where
  "touched_lines lineRange edits = set (concat (map lineRange edits))"


section \<open>Example values\<close>

text \<open>
  An environment with one default agent, no other agent, no slash command, and a
  parser that finds no mention in the text; a request without options.
\<close>

definition example_env :: env where
  "example_env =
     \<lparr>env_getDefaultAgent = (\<lambda>l. Some \<lparr>agent_id = lit ''aide'', agent_name = lit ''aide''\<rparr>),
      env_getAgent = (\<lambda>i. None),
      env_parser = (\<lambda>sessionId request l a.
         \<lparr>pr_text = request, pr_parts = [ChatRequestTextPart request]\<rparr>),
      env_chatAgentLeader = lit ''@'',
      env_chatSubcommandLeader = lit ''/'',
      env_hasCommand = (\<lambda>c. False),
      env_toErrorMessage = error_message,
      env_JSON_stringify = (\<lambda>xs. concat (map saved_sessionId xs))\<rparr>"

definition no_options :: send_options where
  "no_options =
     \<lparr>opt_location = None, opt_attempt = None, opt_noCommandDetection = None, opt_agentId = None,
      opt_slashCommand = None, opt_parserContext = None\<rparr>"

text \<open>A session is started and a first request is sent and accepted.\<close>

definition one_request_sent :: "event list" where
  "one_request_sent =
     [StartSession (lit ''s1'') Panel 1, SendRequest (lit ''s1'') (lit ''hello'') no_options,
      InitializationDone 0]"

definition example_vm :: response_vm where
  "example_vm = \<lparr>vm_id = lit ''r1'', vm_sessionId = lit ''s1''\<rparr>"

definition example_edit_request :: edit_request where
  "example_edit_request = \<lparr>er_context = [\<lparr>codeBlockIndex = 0\<rparr>]\<rparr>"

text \<open>
  The first request is activated and one fragment arrives; then, in the second run,
  the user cancels before the agent returns a result without error.
\<close>

definition progress_arrived :: "event list" where
  "progress_arrived = one_request_sent @ [Activated 0, Progress 0 (MarkdownContent (lit ''hi''))]"

definition cancelled_then_returned :: "event list" where
  "cancelled_then_returned =
     progress_arrived @ [CancelCurrentRequest (lit ''s1''),
                         AgentReturned 0 (Some \<lparr>ar_errorDetails = None\<rparr>)]"

text \<open>
  The first request is cancelled while its agent runs, and a second request is sent
  and accepted before the agent of the first returns; then the first returns and its
  promise settles.  In the last run a third request follows.
\<close>

definition second_sent_after_cancel :: "event list" where
  "second_sent_after_cancel =
     one_request_sent @
     [Activated 0, CancelCurrentRequest (lit ''s1''),
      SendRequest (lit ''s1'') (lit ''second'') no_options, InitializationDone 1]"

definition first_settles_late :: "event list" where
  "first_settles_late =
     second_sent_after_cancel @ [AgentReturned 0 (Some \<lparr>ar_errorDetails = None\<rparr>), PromiseFinally 0]"

definition third_sent :: "event list" where
  "third_sent =
     first_settles_late @ [SendRequest (lit ''s1'') (lit ''third'') no_options, InitializationDone 2]"

text \<open>A session of the inline editor receives a request.\<close>

definition editor_request_sent :: "event list" where
  "editor_request_sent =
     [StartSession (lit ''e1'') Editor 5, SendRequest (lit ''e1'') (lit ''hello'') no_options,
      InitializationDone 0, Activated 0]"

text \<open>
  A service holding the persisted sessions \<open>1\<close> to \<open>n\<close>, each with one request, the
  session \<open>i\<close> created at time \<open>i\<close>.
\<close>

definition persisted_example :: "nat \<Rightarrow> serialized_chat" where
  "persisted_example i =
     \<lparr>sc_sessionId = js_digits i, sc_creationDate = Some (int i),
      sc_requests = [\<lparr>sr_message = lit ''q'', sr_response = []\<rparr>], sc_isImported = False,
      sc_initialLocation = None\<rparr>"

definition service_with_persisted :: "nat \<Rightarrow> chat_service" where
  "service_with_persisted n =
     initial_service\<lparr>persistedSessions := map (\<lambda>i. (js_digits i, persisted_example i)) [1..<Suc n]\<rparr>"






text \<open>
  Modelled from the spec: \<open>LineRange.fromRange\<close> is not under \<open>src/\<close>; a line range
  covers the lines of a range, the first and the last included.
\<close>

definition lines_of_range :: "range \<Rightarrow> nat list" where
  "lines_of_range r = [startLineNumber r ..< Suc (endLineNumber r)]"

text \<open>
  A text buffer that appends the text of each edit and reports the range of each
  edit; an edit of the lines \<open>a\<close> to \<open>b\<close>; a document with one earlier change on its
  undo stack.
\<close>

definition appending_buffer :: text_buffer where
  "appending_buffer content edits = (content @ concat (map edit_text edits), map edit_range edits)"

definition edit_lines :: "nat \<Rightarrow> nat \<Rightarrow> single_edit" where
  "edit_lines a b = \<lparr>edit_range = new_Range a 1 b 1, edit_text = lit ''x''\<rparr>"

definition document_with_history :: text_model where
  "document_with_history =
     \<lparr>tm_content = lit ''a'', tm_versionId = 2, tm_alternativeVersionId = 2,
      tm_undoStack = [\<lparr>ue_content = [], ue_alternativeVersionId = 1\<rparr>],
      tm_elementOpen = False, tm_disposed = False\<rparr>"

section \<open>Properties of the maps\<close>


lemma Map_get_None_iff: "Map_get m k = None \<longleftrightarrow> \<not> Map_has m k"
  by (induction m) (auto split: if_splits)

lemma keys_Map_set: "fst ` set (Map_set m k v) = insert k (fst ` set m)"
  by (induction m) (force split: if_splits)+

lemma distinct_Map_set: "distinct (map fst m) \<Longrightarrow> distinct (map fst (Map_set m k v))"
proof (induction m)
  case Nil
  then show ?case by simp
next
  case (Cons e m)
  obtain a b where e: "e = (a, b)" by (cases e)
  show ?case
  proof (cases "a = k")
    case True
    with Cons.prems e show ?thesis by simp
  next
    case False
    have "fst ` set (Map_set m k v) = insert k (fst ` set m)" by (rule keys_Map_set)
    with False Cons e show ?thesis by (auto simp: image_iff)
  qed
qed

lemma keys_Map_delete: "fst ` set (Map_delete m k) \<subseteq> fst ` set m"
  by (induction m) (force split: if_splits)+

lemma distinct_Map_delete: "distinct (map fst m) \<Longrightarrow> distinct (map fst (Map_delete m k))"
proof (induction m)
  case Nil
  then show ?case by simp
next
  case (Cons e m)
  obtain a b where e: "e = (a, b)" by (cases e)
  have "fst ` set (Map_delete m k) \<subseteq> fst ` set m" by (rule keys_Map_delete)
  with Cons e show ?case by (auto simp: image_iff subset_iff)
qed

lemma Map_count_distinct: "distinct (map fst m) \<Longrightarrow> Map_count m k \<le> 1"
proof (induction m)
  case Nil
  then show ?case by (simp add: Map_count_def)
next
  case (Cons e m)
  have "k \<notin> fst ` set m \<Longrightarrow> filter (\<lambda>e. fst e = k) m = []"
    by (induction m) auto
  with Cons show ?case by (auto simp: Map_count_def)
qed

section \<open>Evaluating the service on concrete runs\<close>

lemma length_lit: "length (lit s) = length s"
  by (simp add: lit_def)

lemma js_trim_hello: "js_trim (lit ''hello'') \<noteq> []"
  by (simp add: js_trim_def lit_def js_isWhiteSpace_def)

lemmas service_defs = run_def step.simps startSession_def sendRequest_def sendRequest_resume_def
  sendRequestAsync_def sendRequestInternal_begin_def sendRequestInternal_activated_def
  sendRequestInternal_complete_def sendRequestInternal_catch_def progressCallback_def
  rawResponsePromise_finally_def cancelCurrentRequestForSession_def
  refreshFollowupsCancellationToken_def new_source_def sessionFollowupCancelTokens_set_def
  pendingRequests_set_def pendingRequests_deleteAndDispose_def source_cancel_def source_dispose_def
  onCancellationRequested_def listening_def completeResponseCreated_def op_addRequest_def
  update_op_def with_model_def trace_def parseChatRequest_def phase_of_def
  token_isCancellationRequested_def telemetry_of_def

lemmas example_defs = one_request_sent_def example_env_def initial_service_def no_options_def
  Let_def js_trim_hello length_lit

section \<open>The pending-request table of the dispatcher\<close>

text \<open>Only \<open>set\<close> and \<open>deleteAndDispose\<close> touch \<open>_pendingRequests\<close>.\<close>

lemma pr_trace: "pendingRequests (trace a b s) = pendingRequests s"
  by (simp add: trace_def)

lemma pr_update_op: "pendingRequests (update_op k f s) = pendingRequests s"
  by (simp add: update_op_def)

lemma pr_with_model: "pendingRequests (with_model sid f s) = pendingRequests s"
  by (simp add: with_model_def)

lemma pr_source_dispose: "pendingRequests (source_dispose i s) = pendingRequests s"
  by (simp add: source_dispose_def)

lemma pr_onCancel: "pendingRequests (onCancellationRequested k s) = pendingRequests s"
  by (simp add: onCancellationRequested_def Let_def pr_trace pr_with_model split: option.splits)

lemma pr_fold_onCancel: "pendingRequests (fold onCancellationRequested ks s) = pendingRequests s"
  by (induction ks arbitrary: s) (simp_all add: pr_onCancel)

lemma pr_source_cancel: "pendingRequests (source_cancel i s) = pendingRequests s"
  by (simp add: source_cancel_def Let_def pr_fold_onCancel)

lemma pr_completeResponseCreated: "pendingRequests (completeResponseCreated k s) = pendingRequests s"
  by (simp add: completeResponseCreated_def Let_def pr_update_op)

lemma pr_op_addRequest: "pendingRequests (op_addRequest k a c s) = pendingRequests s"
  by (simp add: op_addRequest_def Let_def pr_update_op pr_with_model)

lemma pr_catch: "pendingRequests (sendRequestInternal_catch env k err s) = pendingRequests s"
  by (simp add: sendRequestInternal_catch_def Let_def pr_update_op pr_with_model
        pr_completeResponseCreated split: option.splits)

lemma pr_complete: "pendingRequests (sendRequestInternal_complete k r s) = pendingRequests s"
  by (simp add: sendRequestInternal_complete_def Let_def pr_update_op pr_with_model pr_trace
        pr_completeResponseCreated split: option.splits)

lemma pr_progressCallback: "pendingRequests (progressCallback k p s) = pendingRequests s"
  by (simp add: progressCallback_def Let_def pr_update_op pr_with_model pr_trace
        pr_completeResponseCreated split: option.splits chat_progress.splits)

lemma pr_begin: "pendingRequests (sendRequestInternal_begin env k s) = pendingRequests s"
  by (simp add: sendRequestInternal_begin_def Let_def pr_update_op pr_catch pr_op_addRequest
        pr_completeResponseCreated)

lemma pr_activated: "pendingRequests (sendRequestInternal_activated k s) = pendingRequests s"
  by (simp add: sendRequestInternal_activated_def Let_def pr_update_op pr_op_addRequest
        pr_completeResponseCreated)

lemma pr_followup_set: "pendingRequests (sessionFollowupCancelTokens_set k v s) = pendingRequests s"
  by (simp add: sessionFollowupCancelTokens_set_def Let_def pr_source_dispose split: option.splits)

lemma pr_new_source: "pendingRequests (snd (new_source s)) = pendingRequests s"
  by (simp add: new_source_def)

lemma pr_refresh: "pendingRequests (snd (refreshFollowupsCancellationToken sid s)) = pendingRequests s"
  by (simp add: refreshFollowupsCancellationToken_def Let_def new_source_def pr_followup_set
        pr_source_cancel split: option.splits prod.splits)

lemma pr_startSession: "pendingRequests (startSession sid l d s) = pendingRequests s"
  by (simp add: startSession_def Let_def pr_trace)

lemma pr_saveState: "pendingRequests (saveState env s) = pendingRequests s"
  by (simp add: saveState_def Let_def pr_trace)

lemma pr_sendRequest: "pendingRequests (snd (sendRequest s sid r opts)) = pendingRequests s"
  by (simp add: sendRequest_def Let_def pr_trace split: option.splits)

lemma distinct_pr_set:
  "distinct (map fst (pendingRequests s)) \<Longrightarrow> distinct (map fst (pendingRequests (pendingRequests_set k v s)))"
  by (simp add: pendingRequests_set_def Let_def pr_source_dispose distinct_Map_set
        split: option.splits)

lemma distinct_pr_delete:
  "distinct (map fst (pendingRequests s)) \<Longrightarrow>
     distinct (map fst (pendingRequests (pendingRequests_deleteAndDispose k s)))"
  by (simp add: pendingRequests_deleteAndDispose_def Let_def pr_source_dispose
        distinct_Map_delete split: option.splits)

lemma distinct_pr_finally:
  "distinct (map fst (pendingRequests s)) \<Longrightarrow>
     distinct (map fst (pendingRequests (rawResponsePromise_finally k s)))"
  unfolding rawResponsePromise_finally_def
  by (rule distinct_pr_delete) (simp add: pr_update_op)

lemma distinct_pr_cancel:
  "distinct (map fst (pendingRequests s)) \<Longrightarrow>
     distinct (map fst (pendingRequests (cancelCurrentRequestForSession sid s)))"
  unfolding cancelCurrentRequestForSession_def Let_def
  by (rule distinct_pr_delete) (simp add: pr_trace pr_source_cancel split: option.splits)

lemma distinct_pr_sendRequestAsync:
  assumes i: "distinct (map fst (pendingRequests s))"
  shows "distinct (map fst (pendingRequests (snd (sendRequestAsync env msid sid p a e d l s))))"
proof -
  obtain f s1 where r: "refreshFollowupsCancellationToken sid s = (f, s1)" by force
  have p1: "pendingRequests s1 = pendingRequests s" using pr_refresh[of sid s] r by simp
  obtain src s2 where n: "new_source s1 = (src, s2)" by force
  have p2: "pendingRequests s2 = pendingRequests s" using pr_new_source[of s1] n p1 by simp
  have "distinct (map fst (pendingRequests (sendRequestInternal_begin env (length (operations s2))
          (s2\<lparr>operations := operations s2 @
             [\<lparr>op_sessionId = msid, op_parsedRequest = p, op_attempt = a,
               op_enableCommandDetection = e, op_defaultAgent = d, op_location = l,
               op_source = src, op_request = None, op_gotProgress = False,
               op_responseCreatedComplete = False, op_phase = AwaitActivation\<rparr>]\<rparr>))))"
    using i by (simp add: pr_begin p2)
  then show ?thesis
    by (simp add: sendRequestAsync_def r n Let_def distinct_pr_set)
qed

lemma distinct_pr_resume:
  assumes i: "distinct (map fst (pendingRequests s))"
  shows "distinct (map fst (pendingRequests (snd (sendRequest_resume env s sid r opts l))))"
proof (cases "Map_has (pendingRequests s) sid")
  case True
  then show ?thesis using i by (simp add: sendRequest_resume_def pr_trace)
next
  case False
  show ?thesis
  proof (cases "parseChatRequest env sid r (case opt_location opts of Some x \<Rightarrow> x | None \<Rightarrow> l) opts")
    case (Inl err)
    then show ?thesis using i False by (simp add: sendRequest_resume_def Let_def)
  next
    case (Inr parsed)
    then show ?thesis
      using False distinct_pr_sendRequestAsync[OF i]
      by (simp add: sendRequest_resume_def Let_def split: prod.splits)
         (metis snd_conv)
  qed
qed

lemma distinct_pr_step:
  assumes i: "distinct (map fst (pendingRequests s))"
  shows "distinct (map fst (pendingRequests (step env s ev)))"
proof (cases ev)
  case (InitializationDone j)
  show ?thesis
  proof (cases "j < length (suspendedSends s) \<and> \<not> ss_resumed (suspendedSends s ! j)")
    case True
    have "distinct (map fst (pendingRequests
       (s\<lparr>suspendedSends := (suspendedSends s)[j := (suspendedSends s ! j)\<lparr>ss_resumed := True\<rparr>]\<rparr>)))"
      using i by simp
    then show ?thesis using True InitializationDone by (simp add: Let_def distinct_pr_resume)
  next
    case False
    then show ?thesis using i InitializationDone by auto
  qed
qed (use i in \<open>simp_all add: pr_startSession pr_sendRequest pr_activated pr_progressCallback
       pr_complete pr_catch pr_saveState distinct_pr_finally distinct_pr_cancel\<close>)

lemma distinct_pr_run:
  "distinct (map fst (pendingRequests s)) \<Longrightarrow> distinct (map fst (pendingRequests (run env s evs)))"
  unfolding run_def by (induction evs arbitrary: s) (simp_all add: distinct_pr_step)


lemma sendRequest_fields:
  "sessionModels (snd (sendRequest s sid r opts)) = sessionModels s
   \<and> pendingRequests (snd (sendRequest s sid r opts)) = pendingRequests s
   \<and> operations (snd (sendRequest s sid r opts)) = operations s
   \<and> (suspendedSends (snd (sendRequest s sid r opts)) = suspendedSends s
      \<or> (\<exists>l. suspendedSends (snd (sendRequest s sid r opts)) = suspendedSends s @
            [\<lparr>ss_sessionId = sid, ss_request = r, ss_options = opts, ss_initialLocation = l,
              ss_resumed = False\<rparr>]))"
  by (simp add: sendRequest_def Let_def trace_def split: option.splits)

lemma resume_rejected:
  "Map_has (pendingRequests s) sessionId \<Longrightarrow>
     sendRequest_resume env s sessionId request options location =
       (Returned None,
        trace (lit ''sendRequest'') (lit ''Session '' @ sessionId @ lit '' already has a pending request'') s)"
  by (simp add: sendRequest_resume_def)

lemma second_send_changes_nothing:
  fixes env :: env and request :: js_string and options :: send_options
  assumes h: "Map_has (pendingRequests s) sessionId"
  defines "s2 \<equiv> run env s [SendRequest sessionId request options,
                              InitializationDone (length (suspendedSends s))]"
  shows "sessionModels s2 = sessionModels s \<and> pendingRequests s2 = pendingRequests s
         \<and> operations s2 = operations s"
proof -
  define s1 where "s1 = snd (sendRequest s sessionId request options)"
  have f: "sessionModels s1 = sessionModels s" "pendingRequests s1 = pendingRequests s"
          "operations s1 = operations s"
    using sendRequest_fields[of s sessionId request options] by (simp_all add: s1_def)
  have s2: "s2 = step env s1 (InitializationDone (length (suspendedSends s)))"
    by (simp add: s2_def run_def s1_def)
  consider (same) "suspendedSends s1 = suspendedSends s"
    | (more) l where "suspendedSends s1 = suspendedSends s @
            [\<lparr>ss_sessionId = sessionId, ss_request = request, ss_options = options,
              ss_initialLocation = l, ss_resumed = False\<rparr>]"
    using sendRequest_fields[of s sessionId request options] by (auto simp: s1_def)
  then show ?thesis
  proof cases
    case same
    then have "s2 = s1" by (simp add: s2)
    with f show ?thesis by simp
  next
    case more
    define s1' where "s1' = s1\<lparr>suspendedSends := (suspendedSends s1)[length (suspendedSends s) :=
        (suspendedSends s1 ! length (suspendedSends s))\<lparr>ss_resumed := True\<rparr>]\<rparr>"
    have h': "Map_has (pendingRequests s1') sessionId" using h f by (simp add: s1'_def)
    have "s2 = snd (sendRequest_resume env s1' sessionId request options l)"
      by (simp add: s2 more s1'_def Let_def)
    then have "s2 = trace (lit ''sendRequest'')
        (lit ''Session '' @ sessionId @ lit '' already has a pending request'') s1'"
      by (simp add: resume_rejected[OF h'])
    then show ?thesis using f by (simp add: trace_def s1'_def)
  qed
qed

lemma es_pr_sendEditRequest:
  "es_pendingRequests (snd (sendEditRequest s vm req)) =
     (if length (er_context req) \<noteq> 1 \<or> Map_has (es_pendingRequests s) (vm_sessionId vm)
      then es_pendingRequests s
      else Map_set (es_pendingRequests s) (vm_sessionId vm) (es_promises s))"
  by (simp add: sendEditRequest_def sendEditRequestAsync_def es_error_def es_trace_def Let_def)

lemma es_distinct_step:
  "distinct (map fst (es_pendingRequests s)) \<Longrightarrow> distinct (map fst (es_pendingRequests (edit_step s ev)))"
proof (cases ev)
  case (SendEditRequest vm req)
  assume "distinct (map fst (es_pendingRequests s))"
  then show ?thesis
    unfolding SendEditRequest edit_step.simps es_pr_sendEditRequest
    by (simp add: distinct_Map_set)
next
  case (EditPromiseFinally vm)
  assume "distinct (map fst (es_pendingRequests s))"
  then show ?thesis
    unfolding EditPromiseFinally edit_step.simps
    by (simp add: sendEditRequest_finally_def distinct_Map_delete)
qed

lemma es_distinct_run:
  "distinct (map fst (es_pendingRequests s)) \<Longrightarrow> distinct (map fst (es_pendingRequests (edit_run s evs)))"
  unfolding edit_run_def by (induction evs arbitrary: s) (simp_all add: es_distinct_step)

lemma edit_rejected:
  "Map_has (es_pendingRequests e) (vm_sessionId responseVM) \<Longrightarrow>
     fst (sendEditRequest e responseVM editRequest) = None
     \<and> es_pendingRequests (snd (sendEditRequest e responseVM editRequest)) = es_pendingRequests e
     \<and> es_promises (snd (sendEditRequest e responseVM editRequest)) = es_promises e"
  by (simp add: sendEditRequest_def es_error_def es_trace_def Let_def)

text \<open>
  C1.  In every state a run of the dispatcher reaches from the initial service, the
  table \<open>_pendingRequests\<close> holds at most one entry for a session id; while it holds
  one, \<open>sendRequest\<close> for that session returns \<open>undefined\<close> once the initialization
  is awaited, and the whole call leaves the sessions (so their requests), the table
  and the invocations as they were.  The coordinator's table of pending edit
  requests holds at most one entry for a session id in every state its runs reach,
  and \<open>sendEditRequest\<close> for a session with an entry returns \<open>undefined\<close> without
  creating a promise or touching the table.
\<close>

theorem at_most_one_pending_operation:
  fixes env :: env and evs :: "event list" and eevs :: "edit_event list"
    and request :: js_string and options :: send_options
  defines "s \<equiv> run env initial_service evs"
    and "e \<equiv> edit_run initial_edit_service eevs"
  shows "Map_count (pendingRequests s) sessionId \<le> 1
    \<and> (Map_has (pendingRequests s) sessionId \<longrightarrow>
         fst (sendRequest_resume env s sessionId request options location) = Returned None
         \<and> (let s2 = run env s [SendRequest sessionId request options,
                                 InitializationDone (length (suspendedSends s))]
            in sessionModels s2 = sessionModels s \<and> pendingRequests s2 = pendingRequests s
               \<and> operations s2 = operations s))
    \<and> Map_count (es_pendingRequests e) editSessionId \<le> 1
    \<and> (Map_has (es_pendingRequests e) (vm_sessionId responseVM) \<longrightarrow>
         fst (sendEditRequest e responseVM editRequest) = None
         \<and> es_pendingRequests (snd (sendEditRequest e responseVM editRequest)) = es_pendingRequests e
         \<and> es_promises (snd (sendEditRequest e responseVM editRequest)) = es_promises e)"
proof -
  have "distinct (map fst (pendingRequests s))"
    unfolding s_def by (rule distinct_pr_run) (simp add: initial_service_def)
  then have a: "Map_count (pendingRequests s) sessionId \<le> 1"
    by (rule Map_count_distinct)
  have "distinct (map fst (es_pendingRequests e))"
    unfolding e_def by (rule es_distinct_run) (simp add: initial_edit_service_def)
  then have c: "Map_count (es_pendingRequests e) editSessionId \<le> 1"
    by (rule Map_count_distinct)
  show ?thesis
    using a c second_send_changes_nothing[of s sessionId env request options]
      edit_rejected[of e responseVM editRequest]
    by (simp add: resume_rejected Let_def)
qed

theorem at_most_one_pending_operation_witness:
  "Map_has (pendingRequests (run example_env initial_service one_request_sent)) (lit ''s1'')
   \<and> Map_count (pendingRequests (run example_env initial_service one_request_sent)) (lit ''s1'') = 1
   \<and> fst (sendRequest_resume example_env (run example_env initial_service one_request_sent)
            (lit ''s1'') (lit ''again'') no_options Panel) = Returned None
   \<and> sessionModels (run example_env (run example_env initial_service one_request_sent)
         [SendRequest (lit ''s1'') (lit ''again'') no_options, InitializationDone 1])
       = sessionModels (run example_env initial_service one_request_sent)
   \<and> Map_has (es_pendingRequests (edit_run initial_edit_service
         [SendEditRequest example_vm example_edit_request])) (lit ''s1'')
   \<and> fst (sendEditRequest (edit_run initial_edit_service
         [SendEditRequest example_vm example_edit_request]) example_vm example_edit_request) = None"
proof -
  have p: "pendingRequests (run example_env initial_service one_request_sent) = [(lit ''s1'', 1)]"
    by (simp add: service_defs example_defs)
  have q: "length (suspendedSends (run example_env initial_service one_request_sent)) = 1"
    by (simp add: service_defs example_defs)
  have r: "es_pendingRequests (edit_run initial_edit_service
         [SendEditRequest example_vm example_edit_request]) = [(lit ''s1'', 0)]"
    by (simp add: edit_run_def sendEditRequest_def sendEditRequestAsync_def initial_edit_service_def
          example_vm_def example_edit_request_def Let_def)
  have v: "vm_sessionId example_vm = lit ''s1''"
    by (simp add: example_vm_def)
  show ?thesis
    using at_most_one_pending_operation[of example_env one_request_sent "lit ''s1''"
        "lit ''again''" no_options Panel "[SendEditRequest example_vm example_edit_request]"
        "lit ''s1''" example_vm example_edit_request]
    by (simp add: p q r v Map_count_def Let_def)
qed

section \<open>Blank requests\<close>

lemma js_trim_blank: "list_all js_isWhiteSpace request \<Longrightarrow> js_trim request = []"
proof -
  assume a: "list_all js_isWhiteSpace request"
  have d: "dropWhile js_isWhiteSpace request = []"
    using a by (simp add: list_all_iff)
  show ?thesis unfolding js_trim_def d by simp
qed

text \<open>
  C3.  For a text made of white space only (the empty text included) and for every
  state of the service, \<open>sendRequest\<close> returns \<open>undefined\<close> at once; it appends two
  trace lines to the log and changes nothing else: no request is added to a session,
  no pending operation is registered, no invocation starts and no call is left
  suspended.
\<close>

theorem blank_request_rejected:
  assumes "list_all js_isWhiteSpace request"
  shows "sendRequest s sessionId request options =
           (Returned None,
            s\<lparr>logs := logs s @
               [LogTrace (lit ''ChatService#sendRequest: '' @ lit ''sessionId: '' @ sessionId
                   @ lit '', message: '' @ js_substring0 request 20
                   @ (if length request > 20 then lit ''[...]'' else []) @ lit ''}''),
                LogTrace (lit ''ChatService#sendRequest: Rejected empty message'')]\<rparr>)
         \<and> sessionModels (snd (sendRequest s sessionId request options)) = sessionModels s
         \<and> pendingRequests (snd (sendRequest s sessionId request options)) = pendingRequests s
         \<and> operations (snd (sendRequest s sessionId request options)) = operations s
         \<and> suspendedSends (snd (sendRequest s sessionId request options)) = suspendedSends s"
  using js_trim_blank[OF assms]
  by (simp add: sendRequest_def trace_def Let_def lit_def)

theorem blank_request_rejected_witness:
  "list_all js_isWhiteSpace (lit ''   '')
   \<and> fst (sendRequest (run example_env initial_service one_request_sent) (lit ''s1'') (lit ''   '')
           no_options) = Returned None
   \<and> sessionModels (snd (sendRequest (run example_env initial_service one_request_sent)
           (lit ''s1'') (lit ''   '') no_options))
       = sessionModels (run example_env initial_service one_request_sent)
   \<and> fst (sendRequest initial_service (lit ''unknown'') [] no_options) = Returned None"
proof -
  have w: "list_all js_isWhiteSpace (lit ''   '')"
    by (simp add: lit_def js_isWhiteSpace_def)
  have e: "list_all js_isWhiteSpace []"
    by simp
  show ?thesis
    using w blank_request_rejected[OF w, of "run example_env initial_service one_request_sent"
        "lit ''s1''" no_options]
      blank_request_rejected[OF e, of initial_service "lit ''unknown''" no_options]
    by simp
qed

section \<open>Edit requests without exactly one context\<close>

text \<open>
  C9.  For an edit request whose context list does not have exactly one element,
  \<open>sendEditRequest\<close> returns \<open>undefined\<close>; it appends one error line to the log and
  changes nothing else of the coordinator's state: no pending edit request, no
  strategy, no snapshot, no call of \<open>recordEdits\<close>, no document.
\<close>

theorem ambiguous_edit_target_rejected:
  assumes "length (er_context request) \<noteq> 1"
  shows "sendEditRequest s responseVM request =
           (None,
            s\<lparr>es_logs := es_logs s @
               [LogError (lit ''CSChatEditSession#sendRequest Expected exactly one context, got ''
                  @ js_digits (length (er_context request)))]\<rparr>)"
  using assms by (simp add: sendEditRequest_def es_error_def lit_def)

theorem ambiguous_edit_target_rejected_witness:
  "length (er_context \<lparr>er_context = []\<rparr>) \<noteq> 1
   \<and> sendEditRequest initial_edit_service example_vm \<lparr>er_context = []\<rparr> =
       (None,
        initial_edit_service\<lparr>es_logs :=
          [LogError (lit ''CSChatEditSession#sendRequest Expected exactly one context, got 0'')]\<rparr>)
   \<and> fst (sendEditRequest initial_edit_service example_vm
           \<lparr>er_context = [\<lparr>codeBlockIndex = 0\<rparr>, \<lparr>codeBlockIndex = 1\<rparr>]\<rparr>) = None"
proof -
  have a: "length (er_context \<lparr>er_context = []\<rparr>) \<noteq> 1"
    by simp
  have b: "length (er_context \<lparr>er_context = [\<lparr>codeBlockIndex = 0\<rparr>, \<lparr>codeBlockIndex = 1\<rparr>]\<rparr>) \<noteq> 1"
    by simp
  show ?thesis
    using ambiguous_edit_target_rejected[OF a, of initial_edit_service example_vm]
      ambiguous_edit_target_rejected[OF b, of initial_edit_service example_vm]
    by (simp add: initial_edit_service_def lit_def)
qed

section \<open>hasSessions\<close>

text \<open>
  C10.  \<open>hasSessions\<close> returns \<open>true\<close> in every state of the service, also when the
  table of persisted sessions is empty: it tests the truthiness of an array.
\<close>

theorem hasSessions_always_true:
  "hasSessions s = True \<and> hasSessions (s\<lparr>persistedSessions := []\<rparr>) = True"
  by (simp add: hasSessions_def)

section \<open>The completion of a send\<close>







lemmas more_example_defs = progress_arrived_def cancelled_then_returned_def response_of_def
  ChatModel_addRequest_def ChatModel_acceptResponseProgress_def ChatModel_setResponse_def
  ChatModel_completeResponse_def ChatModel_cancelRequest_def update_response_def empty_response_def
  result_classification_of_def




section \<open>Cancelling, then sending again\<close>

lemma js_trim_second: "js_trim (lit ''second'') \<noteq> []"
  by (simp add: js_trim_def lit_def js_isWhiteSpace_def)

lemma js_trim_third: "js_trim (lit ''third'') \<noteq> []"
  by (simp add: js_trim_def lit_def js_isWhiteSpace_def)

lemmas cancel_example_defs = second_sent_after_cancel_def first_settles_late_def third_sent_def
  js_trim_second js_trim_third in_flight_def

text \<open>
  C2 (the code departs from the claim).  After the first request is cancelled and a
  second is accepted, the table holds the entry of the second send (token source 3).
  When the promise of the first send settles, its \<open>finally\<close> callback removes that
  entry and disposes its token source, although the second send is still in flight;
  a third request is then accepted, and two invocations run for the session.
\<close>

theorem stale_finally_removes_successor_entry:
  "pendingRequests (run example_env initial_service second_sent_after_cancel) = [(lit ''s1'', 3)]
   \<and> in_flight (run example_env initial_service second_sent_after_cancel) (lit ''s1'') = [0, 1]
   \<and> pendingRequests (run example_env initial_service first_settles_late) = []
   \<and> in_flight (run example_env initial_service first_settles_late) (lit ''s1'') = [1]
   \<and> op_source (operations (run example_env initial_service first_settles_late) ! 1) = 3
   \<and> ts_disposed (tokenSources (run example_env initial_service first_settles_late) ! 3)
   \<and> in_flight (run example_env initial_service third_sent) (lit ''s1'') = [1, 2]"
  by (simp add: service_defs example_defs more_example_defs cancel_example_defs)

section \<open>Persistence\<close>

lemma insert_by_insort_key:
  "insert_by (\<lambda>a b. f b - f a) x ys = insort_key (\<lambda>x. - f x) x ys"
  for f :: "'a \<Rightarrow> int"
  by (induction ys) auto

lemma Array_sort_sort_key:
  "Array_sort (\<lambda>a b. f b - f a) xs = sort_key (\<lambda>x. - f x) xs"
  for f :: "'a \<Rightarrow> int"
  by (induction xs) (simp_all add: Array_sort_def insert_by_insort_key)

lemma sorted_desc_sort_key:
  "sorted_wrt (\<lambda>a b. f a \<ge> f b) (sort_key (\<lambda>x. - f x) xs)"
  for f :: "'a \<Rightarrow> int"
proof -
  have "sorted (map (\<lambda>x. - f x) (sort_key (\<lambda>x. - f x) xs))"
    by (rule sorted_sort_key)
  then show ?thesis by (simp add: sorted_map)
qed

lemma sorted_wrt_take_drop:
  "sorted_wrt R xs \<Longrightarrow> \<forall>y\<in>set (take n xs). \<forall>x\<in>set (drop n xs). R y x"
proof -
  assume "sorted_wrt R xs"
  then have "sorted_wrt R (take n xs @ drop n xs)" by simp
  then show ?thesis unfolding sorted_wrt_append by blast
qed

lemma set_saveState_candidates:
  "set (saveState_candidates s) =
     Live ` {m \<in> set (Map_values (sessionModels s)). cm_initialLocation m = Panel \<and> cm_requests m \<noteq> []}
     \<union> Persisted ` {c \<in> set (Object_values (persistedSessions s)).
                       \<not> Map_has (sessionModels s) (sc_sessionId c) \<and> sc_requests c \<noteq> []}"
  by (auto simp: saveState_candidates_def)

lemma storage_saveState:
  "storage (saveState env s) = Some (env_JSON_stringify env (saveState_sessions s))"
  by (simp add: saveState_def Let_def)

text \<open>
  C7, as amended.  \<open>saveState\<close> stores the serialization of a list of sessions with
  these properties.  The candidates are exactly the live sessions whose initial
  location is the panel and the persisted sessions that are not live, with at least
  one request.  The list stored and the list cut off make up the candidates; the
  list stored is sorted by creation date (0 when it is missing), descending; it has
  the length of the candidates, at most the cap of 25; and no session cut off is
  newer than a session stored.
\<close>

theorem saveState_persists_newest:
  "storage (saveState env s) = Some (env_JSON_stringify env (saveState_sessions s))
   \<and> set (saveState_candidates s) =
       Live ` {m \<in> set (Map_values (sessionModels s)). cm_initialLocation m = Panel \<and> cm_requests m \<noteq> []}
       \<union> Persisted ` {c \<in> set (Object_values (persistedSessions s)).
                         \<not> Map_has (sessionModels s) (sc_sessionId c) \<and> sc_requests c \<noteq> []}
   \<and> mset (saveState_sessions s) + mset (saveState_dropped s) = mset (saveState_candidates s)
   \<and> sorted_wrt (\<lambda>a b. creationDate_or_0 a \<ge> creationDate_or_0 b) (saveState_sessions s)
   \<and> length (saveState_sessions s) = min maxPersistedSessions (length (saveState_candidates s))
   \<and> (\<forall>y\<in>set (saveState_sessions s). \<forall>x\<in>set (saveState_dropped s).
         creationDate_or_0 x \<le> creationDate_or_0 y)
   \<and> maxPersistedSessions = 25"
proof -
  let ?sorted = "sort_key (\<lambda>x. - creationDate_or_0 x) (saveState_candidates s)"
  have out: "saveState_sessions s = take maxPersistedSessions ?sorted"
    by (simp add: saveState_sessions_def Array_sort_sort_key)
  have dropped: "saveState_dropped s = drop maxPersistedSessions ?sorted"
    by (simp add: saveState_dropped_def Array_sort_sort_key)
  have srt: "sorted_wrt (\<lambda>a b. creationDate_or_0 a \<ge> creationDate_or_0 b) ?sorted"
    by (rule sorted_desc_sort_key)
  have "mset (take maxPersistedSessions ?sorted) + mset (drop maxPersistedSessions ?sorted)
          = mset ?sorted"
    by (simp flip: mset_append)
  then have m: "mset (saveState_sessions s) + mset (saveState_dropped s) = mset (saveState_candidates s)"
    by (simp add: out dropped)
  have s1: "sorted_wrt (\<lambda>a b. creationDate_or_0 a \<ge> creationDate_or_0 b) (saveState_sessions s)"
    unfolding out using srt by (rule sorted_wrt_take)
  have l: "length (saveState_sessions s) = min maxPersistedSessions (length (saveState_candidates s))"
    by (simp add: out min.commute)
  have n: "\<forall>y\<in>set (saveState_sessions s). \<forall>x\<in>set (saveState_dropped s).
         creationDate_or_0 x \<le> creationDate_or_0 y"
    unfolding out dropped using sorted_wrt_take_drop[OF srt] by blast
  show ?thesis
    using storage_saveState set_saveState_candidates m s1 l n
    by (simp add: maxPersistedSessions_def)
qed


theorem saveState_persists_newest_witness:
  "length (saveState_sessions (service_with_persisted 27)) = 25
   \<and> map creationDate_or_0 (saveState_sessions (service_with_persisted 27)) =
       [27, 26, 25, 24, 23, 22, 21, 20, 19, 18, 17, 16, 15, 14, 13, 12, 11, 10, 9, 8, 7, 6, 5, 4, 3]
   \<and> map creationDate_or_0 (saveState_dropped (service_with_persisted 27)) = [2, 1]
   \<and> storage (saveState example_env (service_with_persisted 27)) =
       Some (env_JSON_stringify example_env (saveState_sessions (service_with_persisted 27)))"
proof -
  have c: "length (saveState_candidates (service_with_persisted 27)) = 27"
    by code_simp
  have w1: "map creationDate_or_0 (saveState_sessions (service_with_persisted 27)) =
     [27, 26, 25, 24, 23, 22, 21, 20, 19, 18, 17, 16, 15, 14, 13, 12, 11, 10, 9, 8, 7, 6, 5, 4, 3]"
    by code_simp
  have w2: "map creationDate_or_0 (saveState_dropped (service_with_persisted 27)) = [2, 1]"
    by code_simp
  show ?thesis
    using saveState_persists_newest[of example_env "service_with_persisted 27"]
    by (simp add: c w1 w2)
qed

lemmas saveState_defs = saveState_def saveState_sessions_def saveState_candidates_def
  Map_values_def Object_values_def Array_sort_def maxPersistedSessions_def editor_request_sent_def

text \<open>
  The claim as stated fails for a session that is not a panel session: a live
  session of the inline editor has one request, and \<open>saveState\<close> serializes no
  session at all.
\<close>

theorem editor_session_not_persisted:
  "map (\<lambda>e. (cm_initialLocation (snd e), length (cm_requests (snd e))))
       (sessionModels (run example_env initial_service editor_request_sent)) = [(Editor, 1)]
   \<and> saveState_sessions (run example_env initial_service editor_request_sent) = []
   \<and> storage (run example_env initial_service (editor_request_sent @ [SaveState])) = Some []"
  by (simp add: service_defs example_defs more_example_defs saveState_defs)

section \<open>Restoring persisted sessions\<close>

lemma get_property_object: "get_property (JObject props) name = Inr (Map_get props name)"
  by (simp add: get_property_def)
















section \<open>Decorations of the live strategy\<close>



lemma one_le_MAX_VALUE: "1 \<le> Number_MAX_VALUE"
  by (simp add: Number_MAX_VALUE_def)

lemma whole_line_range:
  "new_Range line 1 line Number_MAX_VALUE =
     \<lparr>startLineNumber = line, startColumn = 1, endLineNumber = line, endColumn = Number_MAX_VALUE\<rparr>"
  using one_le_MAX_VALUE by (simp add: new_Range_def)






lemma snd_makeChanges:
  "snd (makeChanges lineRange buffer sm edits) =
     snd (executeEdits buffer
          (if ls_editCount (fst sm) + 1 = 1 then pushUndoStop (snd sm) else snd sm) edits)"
  by (simp add: makeChanges_def Let_def split: prod.splits)




lemma new_Range_lt:
  "sl < el \<Longrightarrow> new_Range sl sc el ec =
     \<lparr>startLineNumber = sl, startColumn = sc, endLineNumber = el, endColumn = ec\<rparr>"
  by (simp add: new_Range_def)

lemma whole_line_range_Suc:
  "new_Range line (Suc 0) line Number_MAX_VALUE =
     \<lparr>startLineNumber = line, startColumn = Suc 0, endLineNumber = line, endColumn = Number_MAX_VALUE\<rparr>"
  using whole_line_range[of line] by simp

lemmas strategy_defs = makeChanges_def executeEdits_def pushUndoStop_def LiveStrategy_new_def
  getTextModels_first_def getAlternativeVersionId_def report_progress_def decorated_lines_def
  touched_lines_def appending_buffer_def edit_lines_def document_with_history_def
  lines_of_range_def Let_def


section \<open>Rolling back to the checkpoint\<close>

declare undoModelUntil.simps [simp del]

lemma undoModelUntil_stop: "\<not> undo_guard V m \<Longrightarrow> undoModelUntil m V = m"
  by (subst undoModelUntil.simps) (auto simp: undo_guard_def)

lemma undoModelUntil_loop: "undo_guard V m \<Longrightarrow> undoModelUntil m V = undoModelUntil (undo m) V"
  by (subst undoModelUntil.simps) (auto simp: undo_guard_def)

text \<open>The loop calls \<open>undo()\<close> exactly while its guard holds.\<close>

lemma undoModelUntil_iterates:
  "\<exists>n. undoModelUntil m V = (undo ^^ n) m
       \<and> (\<forall>i<n. undo_guard V ((undo ^^ i) m))
       \<and> \<not> undo_guard V (undoModelUntil m V)"
proof (induction m V rule: undoModelUntil.induct)
  case (1 model targetAltVersion)
  show ?case
  proof (cases "undo_guard targetAltVersion model")
    case False
    then have "undoModelUntil model targetAltVersion = (undo ^^ 0) model"
      by (simp add: undoModelUntil_stop)
    with False show ?thesis
      by (metis less_nat_zero_code undoModelUntil_stop)
  next
    case True
    then have g: "targetAltVersion < getAlternativeVersionId model \<and> canUndo model"
      by (simp add: undo_guard_def)
    from "1.IH"[OF g] obtain n where
      n: "undoModelUntil (undo model) targetAltVersion = (undo ^^ n) (undo model)"
      and a: "\<forall>i<n. undo_guard targetAltVersion ((undo ^^ i) (undo model))"
      and s: "\<not> undo_guard targetAltVersion (undoModelUntil (undo model) targetAltVersion)"
      by blast
    have e: "undoModelUntil model targetAltVersion = (undo ^^ Suc n) model"
      using n True by (simp add: undoModelUntil_loop funpow_swap1)
    have b: "\<forall>i<Suc n. undo_guard targetAltVersion ((undo ^^ i) model)"
    proof (intro allI impI)
      fix i assume "i < Suc n"
      show "undo_guard targetAltVersion ((undo ^^ i) model)"
      proof (cases i)
        case 0
        then show ?thesis using True by simp
      next
        case (Suc j)
        then have "j < n" using \<open>i < Suc n\<close> by simp
        then show ?thesis using a Suc by (simp add: funpow_swap1)
      qed
    qed
    have c: "\<not> undo_guard targetAltVersion (undoModelUntil model targetAltVersion)"
      using s True by (simp add: undoModelUntil_loop)
    show ?thesis using e b c by blast
  qed
qed

text \<open>
  After at least one batch the top of the undo stack is the element opened by the
  first edit: it restores the alternate version of the first touch.
\<close>

lemma first_batch:
  assumes "sm = makeChanges lineRange buffer (LiveStrategy_new models, m0) edits"
  shows "ls_editCount (fst sm) = 1 \<and> ls_models (fst sm) = models
       \<and> tm_elementOpen (snd sm) \<and> tm_disposed (snd sm) = tm_disposed m0
       \<and> tm_undoStack (snd sm) =
           \<lparr>ue_content = tm_content m0, ue_alternativeVersionId = tm_alternativeVersionId m0\<rparr>
             # tm_undoStack m0"
  using assms
  by (simp add: makeChanges_def executeEdits_def pushUndoStop_def LiveStrategy_new_def Let_def
        split: prod.splits)

lemma later_batch:
  assumes "ls_editCount (fst sm) \<ge> 1" and "tm_elementOpen (snd sm)" and "tm_undoStack (snd sm) = e # st"
  shows "ls_editCount (fst (makeChanges lineRange buffer sm edits)) \<ge> 1
       \<and> ls_models (fst (makeChanges lineRange buffer sm edits)) = ls_models (fst sm)
       \<and> tm_elementOpen (snd (makeChanges lineRange buffer sm edits))
       \<and> tm_disposed (snd (makeChanges lineRange buffer sm edits)) = tm_disposed (snd sm)
       \<and> tm_undoStack (snd (makeChanges lineRange buffer sm edits)) = e # st"
  using assms
  by (simp add: makeChanges_def executeEdits_def Let_def split: prod.splits)

lemma later_batches:
  assumes "ls_editCount (fst sm) \<ge> 1" and "tm_elementOpen (snd sm)" and "tm_undoStack (snd sm) = e # st"
  shows "ls_models (fst (foldl (makeChanges lineRange buffer) sm batches)) = ls_models (fst sm)
       \<and> tm_disposed (snd (foldl (makeChanges lineRange buffer) sm batches)) = tm_disposed (snd sm)
       \<and> tm_undoStack (snd (foldl (makeChanges lineRange buffer) sm batches)) = e # st"
  using assms
proof (induction batches arbitrary: sm)
  case Nil
  then show ?case by simp
next
  case (Cons b bs)
  have l: "ls_editCount (fst (makeChanges lineRange buffer sm b)) \<ge> 1
       \<and> ls_models (fst (makeChanges lineRange buffer sm b)) = ls_models (fst sm)
       \<and> tm_elementOpen (snd (makeChanges lineRange buffer sm b))
       \<and> tm_disposed (snd (makeChanges lineRange buffer sm b)) = tm_disposed (snd sm)
       \<and> tm_undoStack (snd (makeChanges lineRange buffer sm b)) = e # st"
    by (rule later_batch[OF Cons.prems])
  then show ?case using Cons.IH[of "makeChanges lineRange buffer sm b"] by simp
qed


lemma disposed_undo: "tm_disposed (undo m) = tm_disposed m"
  by (simp add: undo_def split: list.splits)

lemma disposed_undoModelUntil: "tm_disposed (undoModelUntil m V) = tm_disposed m"
proof (induction m V rule: undoModelUntil.induct)
  case (1 model targetAltVersion)
  show ?case
  proof (cases "undo_guard targetAltVersion model")
    case True
    then show ?thesis
      using "1.IH" by (simp add: undoModelUntil_loop undo_guard_def disposed_undo)
  next
    case False
    then show ?thesis by (simp add: undoModelUntil_stop)
  qed
qed

lemma cancel_live:
  assumes "\<not> tm_disposed (snd sm)" and "textModelNSnapshotAltVersion (ls_models (fst sm)) = None"
  shows "cancel sm = (resetDiff (fst sm), undoModelUntil (snd sm) (textModelNAltVersion (ls_models (fst sm))))"
  using assms by (simp add: cancel_def Let_def resetDiff_def)

lemma undo_to_checkpoint:
  assumes "tm_undoStack m = \<lparr>ue_content = c, ue_alternativeVersionId = V\<rparr> # st"
  shows "getAlternativeVersionId (undoModelUntil m V) \<le> V"
proof (cases "undo_guard V m")
  case True
  have "getAlternativeVersionId (undo m) = V"
    using assms by (simp add: undo_def getAlternativeVersionId_def)
  then have "\<not> undo_guard V (undo m)"
    by (simp add: undo_guard_def)
  then have "undoModelUntil m V = undo m"
    using True by (simp add: undoModelUntil_loop undoModelUntil_stop)
  then show ?thesis
    using \<open>getAlternativeVersionId (undo m) = V\<close> by simp
next
  case False
  have "canUndo m" using assms by (simp add: canUndo_def)
  with False have "getAlternativeVersionId m \<le> V"
    by (simp add: undo_guard_def)
  then show ?thesis using False by (simp add: undoModelUntil_stop)
qed

text \<open>
  C4, as amended.  A document that is not disposed has the alternate version \<open>V\<close> at
  the first touch; any batches of edits are applied through one new strategy, then
  the strategy's \<open>cancel\<close> runs.  It invokes \<open>undo()\<close> exactly while the alternate
  version exceeds \<open>V\<close> and undo is available; the document ends with an alternate
  version of at most \<open>V\<close>; and a further \<open>cancel\<close> changes nothing, neither the
  document nor the strategy.
\<close>

theorem cancel_rolls_back_to_checkpoint:
  fixes lineRange :: "range \<Rightarrow> nat list" and buffer :: text_buffer and m0 :: text_model
    and batches :: "single_edit list list"
  defines "models \<equiv> getTextModels_first m0"
  defines "V \<equiv> getAlternativeVersionId m0"
  defines "sm1 \<equiv> foldl (makeChanges lineRange buffer) (LiveStrategy_new models, m0) batches"
  defines "sm2 \<equiv> cancel sm1"
  assumes live: "\<not> tm_disposed m0"
  shows "(\<exists>n. snd sm2 = (undo ^^ n) (snd sm1)
            \<and> (\<forall>i<n. undo_guard V ((undo ^^ i) (snd sm1)))
            \<and> \<not> undo_guard V (snd sm2))
       \<and> getAlternativeVersionId (snd sm2) \<le> V
       \<and> cancel sm2 = sm2"
proof -
  have mV: "textModelNAltVersion models = V" "textModelNSnapshotAltVersion models = None"
    by (simp_all add: models_def V_def getTextModels_first_def)
  have facts: "ls_models (fst sm1) = models \<and> \<not> tm_disposed (snd sm1)
      \<and> (batches = [] \<and> snd sm1 = m0
          \<or> (\<exists>c st. tm_undoStack (snd sm1) = \<lparr>ue_content = c, ue_alternativeVersionId = V\<rparr> # st))"
  proof (cases batches)
    case Nil
    then show ?thesis using live by (simp add: sm1_def LiveStrategy_new_def)
  next
    case (Cons b bs)
    define sm where "sm = makeChanges lineRange buffer (LiveStrategy_new models, m0) b"
    have f: "ls_editCount (fst sm) = 1 \<and> ls_models (fst sm) = models
       \<and> tm_elementOpen (snd sm) \<and> tm_disposed (snd sm) = tm_disposed m0
       \<and> tm_undoStack (snd sm) =
           \<lparr>ue_content = tm_content m0, ue_alternativeVersionId = tm_alternativeVersionId m0\<rparr>
             # tm_undoStack m0"
      by (rule first_batch[OF sm_def])
    then have c: "ls_editCount (fst sm) \<ge> 1" and o: "tm_elementOpen (snd sm)"
      and u: "tm_undoStack (snd sm) =
           \<lparr>ue_content = tm_content m0, ue_alternativeVersionId = tm_alternativeVersionId m0\<rparr>
             # tm_undoStack m0"
      by simp_all
    have s: "sm1 = foldl (makeChanges lineRange buffer) sm bs"
      by (simp add: sm1_def Cons sm_def)
    show ?thesis
      unfolding s using later_batches[OF c o u, of lineRange buffer bs] f live
      by (simp add: V_def getAlternativeVersionId_def)
  qed
  then have md: "ls_models (fst sm1) = models" and nd: "\<not> tm_disposed (snd sm1)"
    by simp_all
  have c1: "sm2 = (resetDiff (fst sm1), undoModelUntil (snd sm1) V)"
    unfolding sm2_def using cancel_live[of sm1] nd md mV by simp
  have it: "\<exists>n. undoModelUntil (snd sm1) V = (undo ^^ n) (snd sm1)
       \<and> (\<forall>i<n. undo_guard V ((undo ^^ i) (snd sm1)))
       \<and> \<not> undo_guard V (undoModelUntil (snd sm1) V)"
    by (rule undoModelUntil_iterates)
  then have stop: "\<not> undo_guard V (snd sm2)"
    unfolding c1 by auto
  have a: "getAlternativeVersionId (snd sm2) \<le> V"
  proof -
    from facts consider (none) "batches = []" "snd sm1 = m0"
      | (some) c st where "tm_undoStack (snd sm1) = \<lparr>ue_content = c, ue_alternativeVersionId = V\<rparr> # st"
      by blast
    then show ?thesis
    proof cases
      case none
      then have "\<not> undo_guard V (snd sm1)" by (simp add: undo_guard_def V_def)
      then show ?thesis using none by (simp add: c1 undoModelUntil_stop V_def)
    next
      case some
      then show ?thesis by (simp add: c1 undo_to_checkpoint)
    qed
  qed
  have again: "cancel sm2 = sm2"
  proof -
    have d2: "\<not> tm_disposed (snd sm2)"
      using nd by (simp add: c1 disposed_undoModelUntil)
    have m2: "ls_models (fst sm2) = models"
      using md by (simp add: c1 resetDiff_def)
    have "cancel sm2 = (resetDiff (fst sm2), undoModelUntil (snd sm2) V)"
      using cancel_live[of sm2] d2 m2 mV by simp
    also have "\<dots> = (fst sm2, snd sm2)"
      using stop by (simp add: undoModelUntil_stop c1 resetDiff_def)
    finally show ?thesis by simp
  qed
  have it2: "\<exists>n. snd sm2 = (undo ^^ n) (snd sm1)
            \<and> (\<forall>i<n. undo_guard V ((undo ^^ i) (snd sm1)))
            \<and> \<not> undo_guard V (snd sm2)"
    using it unfolding c1 by simp
  show ?thesis using it2 a again by blast
qed

lemmas rollback_defs = cancel_def resetDiff_def undo_def canUndo_def undo_guard_def
  undoModelUntil.simps

theorem cancel_rolls_back_to_checkpoint_witness:
  "\<not> tm_disposed document_with_history
   \<and> getAlternativeVersionId (snd (foldl (makeChanges lines_of_range appending_buffer)
        (LiveStrategy_new (getTextModels_first document_with_history), document_with_history)
        [[edit_lines 3 5], [edit_lines 4 7]])) = 4
   \<and> getAlternativeVersionId (snd (cancel (foldl (makeChanges lines_of_range appending_buffer)
        (LiveStrategy_new (getTextModels_first document_with_history), document_with_history)
        [[edit_lines 3 5], [edit_lines 4 7]]))) \<le> 2
   \<and> cancel (cancel (foldl (makeChanges lines_of_range appending_buffer)
        (LiveStrategy_new (getTextModels_first document_with_history), document_with_history)
        [[edit_lines 3 5], [edit_lines 4 7]])) =
      cancel (foldl (makeChanges lines_of_range appending_buffer)
        (LiveStrategy_new (getTextModels_first document_with_history), document_with_history)
        [[edit_lines 3 5], [edit_lines 4 7]])"
proof -
  have l: "\<not> tm_disposed document_with_history"
    by (simp add: document_with_history_def)
  have v: "getAlternativeVersionId document_with_history = 2"
    by (simp add: document_with_history_def getAlternativeVersionId_def)
  have e: "getAlternativeVersionId (snd (foldl (makeChanges lines_of_range appending_buffer)
        (LiveStrategy_new (getTextModels_first document_with_history), document_with_history)
        [[edit_lines 3 5], [edit_lines 4 7]])) = 4"
    by (simp add: strategy_defs new_Range_lt whole_line_range_Suc)
  show ?thesis
    using l e cancel_rolls_back_to_checkpoint[OF l, of lines_of_range appending_buffer
        "[[edit_lines 3 5], [edit_lines 4 7]]"]
    by (simp add: v)
qed

text \<open>
  The claim as stated fails where the document was changed before the edit session:
  after the rollback the alternate version is that of the first touch, and one more
  \<open>undo()\<close> undoes the earlier change.
\<close>

theorem further_undo_changes_document:
  "getAlternativeVersionId document_with_history = 2
   \<and> getAlternativeVersionId (snd (cancel (foldl (makeChanges lines_of_range appending_buffer)
        (LiveStrategy_new (getTextModels_first document_with_history), document_with_history)
        [[edit_lines 3 5]]))) = 2
   \<and> tm_content (snd (cancel (foldl (makeChanges lines_of_range appending_buffer)
        (LiveStrategy_new (getTextModels_first document_with_history), document_with_history)
        [[edit_lines 3 5]]))) = lit ''a''
   \<and> tm_content (undo (snd (cancel (foldl (makeChanges lines_of_range appending_buffer)
        (LiveStrategy_new (getTextModels_first document_with_history), document_with_history)
        [[edit_lines 3 5]])))) = []
   \<and> undo (snd (cancel (foldl (makeChanges lines_of_range appending_buffer)
        (LiveStrategy_new (getTextModels_first document_with_history), document_with_history)
        [[edit_lines 3 5]]))) \<noteq>
      snd (cancel (foldl (makeChanges lines_of_range appending_buffer)
        (LiveStrategy_new (getTextModels_first document_with_history), document_with_history)
        [[edit_lines 3 5]]))"
  by (simp add: strategy_defs rollback_defs new_Range_lt whole_line_range_Suc lit_def)

end
